theory Spec2Isabelle
  imports Main "HOL-Library.Sublist" "HOL-Library.AList"
begin

section \<open>The session manager of src/context/AuthContext.js\<close>

text \<open>
  The development embeds the authentication context of the dashboard: the token check
  \<^verbatim>\<open>isValidToken\<close>, the security log \<^verbatim>\<open>addSecurityLog\<close>, the expiry scheduler
  \<^verbatim>\<open>setSession\<close>, and the operations \<^verbatim>\<open>login\<close>, \<^verbatim>\<open>refreshAuthToken\<close>,
  \<^verbatim>\<open>logout\<close> and \<^verbatim>\<open>getSecurityEvents\<close>. React state, \<^verbatim>\<open>localStorage\<close>, the pending
  \<^verbatim>\<open>setTimeout\<close> callbacks and the calls made to the REST client are fields of one
  state record that every operation takes and returns.
\<close>

subsection \<open>JavaScript values\<close>

text \<open>
  The values the module handles: what \<^verbatim>\<open>JSON.parse\<close> returns, plus \<^verbatim>\<open>undefined\<close>.
  An object is the list of its own properties in insertion order, with distinct names.
  Numbers are the integers (seconds and milliseconds since the epoch); the rounding of
  doubles is outside the model.
\<close>

datatype jsval =
    JUndefined
  | JNull
  | JBool bool
  | JNum int
  | JStr string
  | JArr "jsval list"
  | JObj "(string \<times> jsval) list"

type_synonym jsobj = "(string \<times> jsval) list"

text \<open>The result of a numeric conversion: a number or \<^verbatim>\<open>NaN\<close>.\<close>

datatype jsnum = NaN | Fin int

text \<open>
  What the module throws and catches: a \<^verbatim>\<open>TypeError\<close> of the runtime,
  \<^verbatim>\<open>new Error('Invalid token received')\<close> (the specification's \<^emph>\<open>InvalidToken\<close>),
  \<^verbatim>\<open>new Error('Invalid refresh token')\<close> (its \<^emph>\<open>NoRefreshToken\<close>), and the rejection
  of a request, with \<^verbatim>\<open>error.message\<close> and \<^verbatim>\<open>error.response?.data?.message\<close>.
\<close>

datatype error =
    TypeError
  | InvalidTokenReceived
  | InvalidRefreshToken
  | ApiRejected string jsval

text \<open>
  The browser functions the module calls and does not define. Every theorem below holds
  for every value of this record.
  \<^item> \<open>userAgent\<close>: \<^verbatim>\<open>navigator.userAgent\<close>;
  \<^item> \<open>atob\<close>: base64 decoding, \<open>None\<close> where \<^verbatim>\<open>atob\<close> throws;
  \<^item> \<open>JSON_parse\<close>: \<open>None\<close> where \<^verbatim>\<open>JSON.parse\<close> throws;
  \<^item> \<open>JSON_stringify\<close>: \<^verbatim>\<open>JSON.stringify\<close>;
  \<^item> \<open>to_number\<close>: the numeric conversion of strings, arrays and objects;
  \<^item> \<open>to_string\<close>: the string conversion of values other than strings;
  \<^item> \<open>type_error_message\<close>: the \<^verbatim>\<open>message\<close> of the runtime's \<^verbatim>\<open>TypeError\<close>;
  \<^item> \<open>toISOString\<close>: \<^verbatim>\<open>new Date(ms).toISOString()\<close>;
  \<^item> \<open>getTime\<close>: \<^verbatim>\<open>new Date(v).getTime()\<close>.
\<close>

record platform =
  userAgent :: string
  atob :: "string \<Rightarrow> string option"
  JSON_parse :: "string \<Rightarrow> jsval option"
  JSON_stringify :: "jsval \<Rightarrow> string"
  to_number :: "jsval \<Rightarrow> jsnum"
  to_string :: "jsval \<Rightarrow> string"
  type_error_message :: string
  toISOString :: "nat \<Rightarrow> string"
  getTime :: "jsval \<Rightarrow> jsnum"

text \<open>Truthiness, as \<^verbatim>\<open>!v\<close>, \<^verbatim>\<open>v && ...\<close> and \<^verbatim>\<open>v || ...\<close> read it.\<close>

fun truthy :: "jsval \<Rightarrow> bool" where
  "truthy JUndefined = False"
| "truthy JNull = False"
| "truthy (JBool b) = b"
| "truthy (JNum n) = (n \<noteq> 0)"
| "truthy (JStr s) = (s \<noteq> [])"
| "truthy (JArr xs) = True"
| "truthy (JObj kvs) = True"

text \<open>\<^verbatim>\<open>a || b\<close>.\<close>

definition or_else :: "jsval \<Rightarrow> jsval \<Rightarrow> jsval" where
  "or_else a b = (if truthy a then a else b)"

text \<open>An own property of an object; \<^verbatim>\<open>undefined\<close> when it has none of that name.\<close>

definition own_prop :: "jsobj \<Rightarrow> string \<Rightarrow> jsval" where
  "own_prop kvs k = (case map_of kvs k of None \<Rightarrow> JUndefined | Some v \<Rightarrow> v)"

text \<open>
  \<^verbatim>\<open>v.k\<close> for a name \<open>k\<close> that no prototype defines (the module reads \<^verbatim>\<open>exp\<close> and
  \<^verbatim>\<open>id\<close>): a \<^verbatim>\<open>TypeError\<close> on \<^verbatim>\<open>null\<close> and \<^verbatim>\<open>undefined\<close>, the own property of an
  object, \<^verbatim>\<open>undefined\<close> on every other value.
\<close>

fun member_of :: "jsval \<Rightarrow> string \<Rightarrow> error + jsval" where
  "member_of JUndefined k = Inl TypeError"
| "member_of JNull k = Inl TypeError"
| "member_of (JObj kvs) k = Inr (own_prop kvs k)"
| "member_of v k = Inr JUndefined"

text \<open>\<^verbatim>\<open>v?.k\<close>.\<close>

definition opt_member :: "jsval \<Rightarrow> string \<Rightarrow> jsval" where
  "opt_member v k = (case member_of v k of Inl e \<Rightarrow> JUndefined | Inr x \<Rightarrow> x)"

text \<open>
  \<^verbatim>\<open>a === b\<close>. Two primitives are equal when they are the same value of the same
  type, and a primitive is never equal to an object or an array. Two objects or arrays
  are equal when they are one and the same object; the values of the model do not tell
  whether they are, so the result is \<open>None\<close> there.
\<close>

fun is_reference :: "jsval \<Rightarrow> bool" where
  "is_reference (JArr xs) = True"
| "is_reference (JObj kvs) = True"
| "is_reference v = False"

definition strict_eq :: "jsval \<Rightarrow> jsval \<Rightarrow> bool option" where
  "strict_eq a b = (if is_reference a \<and> is_reference b then None else Some (a = b))"

text \<open>The numeric conversion that \<^verbatim>\<open>*\<close> applies to its operands.\<close>

fun ToNumber :: "platform \<Rightarrow> jsval \<Rightarrow> jsnum" where
  "ToNumber P JUndefined = NaN"
| "ToNumber P JNull = Fin 0"
| "ToNumber P (JBool b) = Fin (if b then 1 else 0)"
| "ToNumber P (JNum n) = Fin n"
| "ToNumber P v = to_number P v"

fun num_times :: "jsnum \<Rightarrow> int \<Rightarrow> jsnum" where
  "num_times NaN k = NaN"
| "num_times (Fin n) k = Fin (n * k)"

fun num_minus :: "jsnum \<Rightarrow> int \<Rightarrow> jsnum" where
  "num_minus NaN k = NaN"
| "num_minus (Fin n) k = Fin (n - k)"

text \<open>\<^verbatim>\<open>a >= b\<close> and \<^verbatim>\<open>a < b\<close> with a number on the left, \<^verbatim>\<open>a > 0\<close>: false on \<^verbatim>\<open>NaN\<close>.\<close>

fun int_ge :: "int \<Rightarrow> jsnum \<Rightarrow> bool" where
  "int_ge a NaN = False"
| "int_ge a (Fin b) = (a \<ge> b)"

fun num_less :: "jsnum \<Rightarrow> int \<Rightarrow> bool" where
  "num_less NaN b = False"
| "num_less (Fin a) b = (a < b)"

text \<open>\<^verbatim>\<open>s.split(c)\<close> for a one-character separator.\<close>

fun split_on :: "char \<Rightarrow> string \<Rightarrow> string list" where
  "split_on c [] = [[]]"
| "split_on c (x # xs) =
     (if x = c then [] # split_on c xs
      else (case split_on c xs of
              [] \<Rightarrow> [[x]]
            | p # ps \<Rightarrow> (x # p) # ps))"

text \<open>\<^verbatim>\<open>s.includes(t)\<close> on strings.\<close>

fun str_includes :: "string \<Rightarrow> string \<Rightarrow> bool" where
  "str_includes [] t = (t = [])"
| "str_includes (c # cs) t = (prefix t (c # cs) \<or> str_includes cs t)"

subsection \<open>Token check\<close>

text \<open>
  \<^verbatim>\<open>isValidToken\<close> (AuthContext.js, lines 47-67) at clock reading \<open>now\<close>
  (\<^verbatim>\<open>Date.now()\<close>, milliseconds since the epoch). Every exception of the \<^verbatim>\<open>try\<close> block
  is caught and gives \<^verbatim>\<open>false\<close>.
\<close>

definition isValidToken :: "platform \<Rightarrow> nat \<Rightarrow> jsval \<Rightarrow> bool" where
  "isValidToken P now token =
     (case token of
        JStr s \<Rightarrow>
          if s = [] then False
          else
            let parts = split_on CHR ''.'' s in
            if length parts \<noteq> 3 then False
            else
              (case atob P (parts ! 1) of
                 None \<Rightarrow> False
               | Some decoded \<Rightarrow>
                   (case JSON_parse P decoded of
                      None \<Rightarrow> False
                    | Some payload \<Rightarrow>
                        (case member_of payload ''exp'' of
                           Inl e \<Rightarrow> False
                         | Inr exp \<Rightarrow>
                             if truthy exp \<and> int_ge (int now) (num_times (ToNumber P exp) 1000)
                             then False
                             else True)))
      | _ \<Rightarrow> False)"


subsection \<open>State\<close>

text \<open>
  A pending \<^verbatim>\<open>setTimeout\<close> callback: when it was set and the delay it was given, in
  milliseconds. The module sets one kind of callback only, the auto-logout of
  \<^verbatim>\<open>setSession\<close>.
\<close>

record timer =
  set_at :: nat
  delay :: int

text \<open>
  A log entry that waits for \<^verbatim>\<open>getClientIP()\<close>: the action, and the properties written
  before and after \<^verbatim>\<open>ip\<close> in the details literal.
\<close>

datatype pending_log = PendingLog string jsobj jsobj

text \<open>The requests of \<^verbatim>\<open>authAPI\<close> that the modelled operations send.\<close>

datatype api_call =
    LoginCall string string
  | RefreshCall jsval

text \<open>
  How a request ends: resolved with \<^verbatim>\<open>response.data\<close>, or rejected with the status of
  \<^verbatim>\<open>error.response\<close> (\<open>None\<close> when there is no response), \<^verbatim>\<open>error.message\<close> and
  \<^verbatim>\<open>error.response?.data?.message\<close>.
\<close>

datatype api_result =
    Resolved jsval
  | Rejected "nat option" string jsval

text \<open>
  \<open>user\<close>, \<open>sessionExpiry\<close> and \<open>securityLog\<close> are the React state of \<^verbatim>\<open>AuthProvider\<close>;
  \<open>storage\<close> is \<^verbatim>\<open>localStorage\<close>; \<open>timers\<close> are the callbacks given to \<^verbatim>\<open>setTimeout\<close>
  that have not run; \<open>pendingLogs\<close> are the continuations of \<^verbatim>\<open>getClientIP()\<close> that
  have not run; \<open>apiCalls\<close> are the requests sent so far; \<open>redirected\<close> is set when the
  response interceptor of services/api.js assigns \<^verbatim>\<open>window.location.href\<close>: the document
  is then being unloaded, and the other fields describe it until it is gone.
\<close>

record state =
  user :: jsval
  sessionExpiry :: "jsnum option"
  securityLog :: "jsobj list"
  storage :: "string \<rightharpoonup> string"
  timers :: "timer list"
  pendingLogs :: "pending_log list"
  apiCalls :: "api_call list"
  redirected :: bool

text \<open>\<^verbatim>\<open>localStorage.getItem(k)\<close>: the stored string, or \<^verbatim>\<open>null\<close>.\<close>

definition getItem :: "state \<Rightarrow> string \<Rightarrow> jsval" where
  "getItem s k = (case storage s k of None \<Rightarrow> JNull | Some v \<Rightarrow> JStr v)"

definition setItem :: "string \<Rightarrow> string \<Rightarrow> state \<Rightarrow> state" where
  "setItem k v s = s\<lparr>storage := (storage s)(k \<mapsto> v)\<rparr>"

definition removeItem :: "string \<Rightarrow> state \<Rightarrow> state" where
  "removeItem k s = s\<lparr>storage := (storage s)(k := None)\<rparr>"

text \<open>The string that \<^verbatim>\<open>setItem\<close> stores for a value.\<close>

definition ToString :: "platform \<Rightarrow> jsval \<Rightarrow> string" where
  "ToString P v = (case v of JStr s \<Rightarrow> s | _ \<Rightarrow> to_string P v)"

fun int_minus_num :: "int \<Rightarrow> jsnum \<Rightarrow> jsnum" where
  "int_minus_num a NaN = NaN"
| "int_minus_num a (Fin b) = Fin (a - b)"

subsection \<open>Security log\<close>

text \<open>
  An object literal that ends in \<^verbatim>\<open>...details\<close>: each property of \<open>details\<close> replaces
  the property of the same name, in its place, or is added at the end.
\<close>

definition spread :: "jsobj \<Rightarrow> jsobj \<Rightarrow> jsobj" where
  "spread base details = fold (\<lambda>(k, v) acc. AList.update k v acc) details base"

text \<open>The entry that \<^verbatim>\<open>addSecurityLog\<close> builds (lines 30-37).\<close>

definition logEntry :: "platform \<Rightarrow> nat \<Rightarrow> string \<Rightarrow> jsobj \<Rightarrow> jsobj" where
  "logEntry P now action details =
     spread
       [(''timestamp'', JStr (toISOString P now)),
        (''action'', JStr action),
        (''userAgent'', JStr (userAgent P)),
        (''ip'', or_else (own_prop details ''ip'') (JStr ''unknown'')),
        (''location'', or_else (own_prop details ''location'') (JStr ''unknown''))]
       details"

text \<open>\<^verbatim>\<open>[logEntry, ...prev].slice(0, 100)\<close>.\<close>

definition newLog :: "jsobj \<Rightarrow> jsobj list \<Rightarrow> jsobj list" where
  "newLog entry prev = take 100 (entry # prev)"

text \<open>
  \<^verbatim>\<open>addSecurityLog\<close> (lines 29-44): the new log becomes the state and is written to
  \<^verbatim>\<open>localStorage\<close> under \<^verbatim>\<open>securityLog\<close>.
\<close>

definition addSecurityLog :: "platform \<Rightarrow> nat \<Rightarrow> string \<Rightarrow> jsobj \<Rightarrow> state \<Rightarrow> state" where
  "addSecurityLog P now action details s =
     (let l = newLog (logEntry P now action details) (securityLog s)
      in setItem ''securityLog'' (JSON_stringify P (JArr (map JObj l))) (s\<lparr>securityLog := l\<rparr>))"


subsection \<open>Logout\<close>

text \<open>
  \<^verbatim>\<open>logout\<close> (lines 423-434). \<open>closure_user\<close> is the \<^verbatim>\<open>user\<close> of the render that created
  the function: the state's \<open>user\<close> when the function comes from the context value, and
  \<^verbatim>\<open>null\<close> inside the callback of \<^verbatim>\<open>setSession\<close>, which \<^verbatim>\<open>useCallback\<close> keeps from the
  first render.
\<close>

definition logout_as :: "jsval \<Rightarrow> platform \<Rightarrow> nat \<Rightarrow> state \<Rightarrow> state" where
  "logout_as closure_user P now s =
     (let userId = opt_member closure_user ''id'';
          s1 = addSecurityLog P now ''user_logout'' [(''userId'', userId)] s;
          s2 = removeItem ''token'' s1;
          s3 = removeItem ''refreshToken'' s2;
          s4 = removeItem ''oauth_state'' s3
      in s4\<lparr>user := JNull, sessionExpiry := None\<rparr>)"

definition logout :: "platform \<Rightarrow> nat \<Rightarrow> state \<Rightarrow> state" where
  "logout P now s = logout_as (user s) P now s"

subsection \<open>Session scheduler\<close>

text \<open>
  \<^verbatim>\<open>setSession\<close> (lines 81-102). A value that is not a string has no \<^verbatim>\<open>split\<close>, and
  \<^verbatim>\<open>atob(undefined)\<close> decodes the string \<^verbatim>\<open>undefined\<close>; every exception is caught and
  leaves the state as it is. The timer is added behind the pending ones: the handle
  that \<^verbatim>\<open>setTimeout\<close> returns is dropped and the module never calls \<^verbatim>\<open>clearTimeout\<close>.
\<close>

definition setSession :: "platform \<Rightarrow> nat \<Rightarrow> jsval \<Rightarrow> state \<Rightarrow> state" where
  "setSession P now token s =
     (if \<not> truthy token then s
      else
        (case token of
           JStr str \<Rightarrow>
             (let parts = split_on CHR ''.'' str;
                  segment = (if 1 < length parts then parts ! 1 else ''undefined'')
              in case atob P segment of
                   None \<Rightarrow> s
                 | Some decoded \<Rightarrow>
                     (case JSON_parse P decoded of
                        None \<Rightarrow> s
                      | Some payload \<Rightarrow>
                          (case member_of payload ''exp'' of
                             Inl e \<Rightarrow> s
                           | Inr exp \<Rightarrow>
                               if truthy exp then
                                 (let expiryTime = num_times (ToNumber P exp) 1000;
                                      s1 = s\<lparr>sessionExpiry := Some expiryTime\<rparr>
                                  in case num_minus (num_minus expiryTime (int now)) 60000 of
                                       NaN \<Rightarrow> s1
                                     | Fin timeout \<Rightarrow>
                                         if timeout > 0
                                         then s1\<lparr>timers := timers s1 @ [\<lparr>set_at = now, delay = timeout\<rparr>]\<rparr>
                                         else s1)
                               else s)))
         | _ \<Rightarrow> s))"

text \<open>
  The delay \<^verbatim>\<open>setTimeout\<close> waits for: the browser keeps the delay it is given as a 32-bit
  signed integer (the number modulo \<open>2 ^ 32\<close>, read as signed) and waits 0 milliseconds
  when that is negative. A delay up to 2147483647 is kept as it is; a delay from
  2147483648 to 4294967295 becomes 0.
\<close>

definition timeoutDelay :: "int \<Rightarrow> int" where
  "timeoutDelay d = max 0 ((d + 2 ^ 31) mod 2 ^ 32 - 2 ^ 31)"

text \<open>A timer may run from the instant it was set at plus the delay the browser waits.\<close>

definition timer_due :: "nat \<Rightarrow> timer \<Rightarrow> bool" where
  "timer_due now t = (int (set_at t) + timeoutDelay (delay t) \<le> int now)"

text \<open>
  The callback of \<^verbatim>\<open>setSession\<close> (lines 93-96) for the pending timer with index \<open>i\<close>, run
  at \<open>now\<close>: \<open>None\<close> when there is no such timer or the browser is still waiting. The
  timer is one-shot. The \<^verbatim>\<open>logout\<close> it calls is the one of the first render, whose
  \<^verbatim>\<open>user\<close> is \<^verbatim>\<open>null\<close>.
\<close>

definition fireTimer :: "platform \<Rightarrow> nat \<Rightarrow> nat \<Rightarrow> state \<Rightarrow> state option" where
  "fireTimer P now i s =
     (if i < length (timers s) \<and> timer_due now (timers s ! i) then
        (let s1 = s\<lparr>timers := take i (timers s) @ drop (Suc i) (timers s)\<rparr>;
             s2 = addSecurityLog P now ''session_auto_logout'' [(''reason'', JStr ''token_expiry'')] s1
         in Some (logout_as JNull P now s2))
      else None)"

subsection \<open>Requests\<close>

text \<open>
  The response interceptor of services/api.js (lines 17-26): a rejection with status
  401 removes the stored token and assigns \<^verbatim>\<open>window.location.href = '/login'\<close>. The
  navigation unloads the document, and the timeouts of the document with it.
\<close>

definition interceptError :: "nat option \<Rightarrow> state \<Rightarrow> state" where
  "interceptError status s =
     (if status = Some 401
      then (removeItem ''token'' s)\<lparr>redirected := True, timers := []\<rparr>
      else s)"


definition sendRequest :: "api_call \<Rightarrow> state \<Rightarrow> state" where
  "sendRequest c s = s\<lparr>apiCalls := apiCalls s @ [c]\<rparr>"

text \<open>\<^verbatim>\<open>error.message\<close> and \<^verbatim>\<open>error.response?.data?.message\<close> of a caught error.\<close>

fun error_message :: "platform \<Rightarrow> error \<Rightarrow> string" where
  "error_message P TypeError = type_error_message P"
| "error_message P InvalidTokenReceived = ''Invalid token received''"
| "error_message P InvalidRefreshToken = ''Invalid refresh token''"
| "error_message P (ApiRejected m r) = m"

fun response_message :: "error \<Rightarrow> jsval" where
  "response_message (ApiRejected m r) = r"
| "response_message e = JUndefined"

subsection \<open>Login\<close>

text \<open>
  The rate-limit filter of \<^verbatim>\<open>login\<close> (lines 172-175):
  \<^verbatim>\<open>entry.action === 'login_attempt' && Date.now() - new Date(entry.timestamp).getTime() < 5 * 60 * 1000\<close>.
\<close>

definition recentAttempt :: "platform \<Rightarrow> nat \<Rightarrow> jsobj \<Rightarrow> bool" where
  "recentAttempt P now entry =
     (strict_eq (own_prop entry ''action'') (JStr ''login_attempt'') = Some True \<and>
      num_less (int_minus_num (int now) (getTime P (own_prop entry ''timestamp''))) (5 * 60 * 1000))"

definition recentAttempts :: "platform \<Rightarrow> nat \<Rightarrow> state \<Rightarrow> jsobj list" where
  "recentAttempts P now s = filter (recentAttempt P now) (securityLog s)"

text \<open>
  \<^verbatim>\<open>const { token, refreshToken, ...userData } = response.data\<close>: a \<^verbatim>\<open>TypeError\<close> on
  \<^verbatim>\<open>null\<close> and \<^verbatim>\<open>undefined\<close>. Data that is no object has neither property; its
  \<open>userData\<close> is never read, since the undefined token fails the check that follows.
\<close>

fun destructureLogin :: "jsval \<Rightarrow> error + jsval \<times> jsval \<times> jsval" where
  "destructureLogin JUndefined = Inl TypeError"
| "destructureLogin JNull = Inl TypeError"
| "destructureLogin (JObj kvs) =
     Inr (own_prop kvs ''token'', own_prop kvs ''refreshToken'',
          JObj (filter (\<lambda>(k, v). k \<noteq> ''token'' \<and> k \<noteq> ''refreshToken'') kvs))"
| "destructureLogin v = Inr (JUndefined, JUndefined, JObj [])"

text \<open>
  The \<^verbatim>\<open>try\<close> block of \<^verbatim>\<open>login\<close> (lines 170-213), called at \<open>t0\<close>; \<open>res\<close> is how the
  request ends, at \<open>t1\<close>, if it is sent. The result is the returned object or the
  exception thrown, with the state reached.
\<close>

definition login_try ::
  "platform \<Rightarrow> nat \<Rightarrow> nat \<Rightarrow> api_result \<Rightarrow> string \<Rightarrow> string \<Rightarrow> state \<Rightarrow> (error + jsval) \<times> state" where
  "login_try P t0 t1 res email password s =
     (if length (recentAttempts P t0 s) \<ge> 5
      then (Inr (JObj [(''success'', JBool False),
                       (''message'', JStr ''Too many login attempts. Please try again later.'')]),
            addSecurityLog P t0 ''rate_limit_exceeded'' [(''email'', JStr email)] s)
      else
        (let s1 = addSecurityLog P t0 ''login_attempt'' [(''email'', JStr email)] s;
             s2 = sendRequest (LoginCall email password) s1
         in case res of
              Rejected status m r \<Rightarrow> (Inl (ApiRejected m r), interceptError status s2)
            | Resolved data \<Rightarrow>
                (case destructureLogin data of
                   Inl e \<Rightarrow> (Inl e, s2)
                 | Inr (token, refreshToken, userData) \<Rightarrow>
                     if \<not> isValidToken P t1 token then (Inl InvalidTokenReceived, s2)
                     else
                       (let s3 = setItem ''token'' (ToString P token) s2;
                            s4 = (if truthy refreshToken
                                  then setItem ''refreshToken'' (ToString P refreshToken) s3
                                  else s3);
                            s5 = s4\<lparr>user := userData\<rparr>;
                            s6 = setSession P t1 token s5;
                            s7 = s6\<lparr>pendingLogs := pendingLogs s6 @
                                   [PendingLog ''login_success''
                                      [(''userId'', opt_member userData ''id''), (''email'', JStr email)]
                                      [(''method'', JStr ''password'')]]\<rparr>
                        in (Inr (JObj [(''success'', JBool True)]), s7)))))"

text \<open>The \<^verbatim>\<open>catch\<close> block of \<^verbatim>\<open>login\<close> (lines 214-230).\<close>

definition login_catch :: "error \<Rightarrow> string \<Rightarrow> state \<Rightarrow> jsval \<times> state" where
  "login_catch e email s =
     (let message = or_else (response_message e) (JStr ''Login failed'')
      in (JObj [(''success'', JBool False), (''message'', message)],
          s\<lparr>pendingLogs := pendingLogs s @
               [PendingLog ''login_failed'' [(''email'', JStr email)] [(''reason'', message)]]\<rparr>))"

definition login ::
  "platform \<Rightarrow> nat \<Rightarrow> nat \<Rightarrow> api_result \<Rightarrow> string \<Rightarrow> string \<Rightarrow> state \<Rightarrow> jsval \<times> state" where
  "login P t0 t1 res email password s =
     (case login_try P t0 t1 res email password s of
        (Inr result, s') \<Rightarrow> (result, s')
      | (Inl e, s') \<Rightarrow> login_catch e email s')"

subsection \<open>Token refresh\<close>

text \<open>\<^verbatim>\<open>const { token, newRefreshToken } = response.data\<close>.\<close>

fun destructureRefresh :: "jsval \<Rightarrow> error + jsval \<times> jsval" where
  "destructureRefresh JUndefined = Inl TypeError"
| "destructureRefresh JNull = Inl TypeError"
| "destructureRefresh (JObj kvs) = Inr (own_prop kvs ''token'', own_prop kvs ''newRefreshToken'')"
| "destructureRefresh v = Inr (JUndefined, JUndefined)"

text \<open>
  The \<^verbatim>\<open>try\<close> block of \<^verbatim>\<open>refreshAuthToken\<close> (lines 343-364), called at \<open>t0\<close>, with the
  time at which the block ended.
\<close>

definition refresh_try ::
  "platform \<Rightarrow> nat \<Rightarrow> nat \<Rightarrow> api_result \<Rightarrow> state \<Rightarrow> (error + jsval) \<times> nat \<times> state" where
  "refresh_try P t0 t1 res s =
     (let refreshToken = getItem s ''refreshToken''
      in if \<not> truthy refreshToken \<or> \<not> isValidToken P t0 refreshToken
         then (Inl InvalidRefreshToken, t0, s)
         else
           (let s1 = sendRequest (RefreshCall refreshToken) s
            in case res of
                 Rejected status m r \<Rightarrow> (Inl (ApiRejected m r), t1, interceptError status s1)
               | Resolved data \<Rightarrow>
                   (case destructureRefresh data of
                      Inl e \<Rightarrow> (Inl e, t1, s1)
                    | Inr (token, newRefreshToken) \<Rightarrow>
                        if \<not> isValidToken P t1 token then (Inl InvalidTokenReceived, t1, s1)
                        else
                          (let s2 = setItem ''token'' (ToString P token) s1;
                               s3 = (if truthy newRefreshToken
                                     then setItem ''refreshToken'' (ToString P newRefreshToken) s2
                                     else s2);
                               s4 = setSession P t1 token s3;
                               s5 = addSecurityLog P t1 ''token_refreshed'' [] s4
                           in (Inr (JObj [(''success'', JBool True), (''token'', token)]), t1, s5)))))"

text \<open>
  \<^verbatim>\<open>refreshAuthToken\<close> (lines 342-370). Its \<^verbatim>\<open>logout\<close> is the one of the render that
  created the function, with the \<open>user\<close> of the state the call started from.
\<close>

definition refreshAuthToken ::
  "platform \<Rightarrow> nat \<Rightarrow> nat \<Rightarrow> api_result \<Rightarrow> state \<Rightarrow> jsval \<times> state" where
  "refreshAuthToken P t0 t1 res s =
     (case refresh_try P t0 t1 res s of
        (Inr result, t, s') \<Rightarrow> (result, s')
      | (Inl e, t, s') \<Rightarrow>
          (JObj [(''success'', JBool False)],
           logout_as (user s) P t
             (addSecurityLog P t ''token_refresh_failed'' [(''error'', JStr (error_message P e))] s')))"

subsection \<open>Security events of the current user\<close>

text \<open>
  \<^verbatim>\<open>v.includes(t)\<close>: on a string, on an array (\<^verbatim>\<open>t\<close> is one of its elements), and a
  \<^verbatim>\<open>TypeError\<close> on every other value.
\<close>

fun js_includes :: "jsval \<Rightarrow> string \<Rightarrow> error + bool" where
  "js_includes (JStr s) t = Inr (str_includes s t)"
| "js_includes (JArr xs) t = Inr (JStr t \<in> set xs)"
| "js_includes v t = Inl TypeError"

text \<open>
  The filter of \<^verbatim>\<open>getSecurityEvents\<close> (lines 439-443) on one entry; \<^verbatim>\<open>||\<close> evaluates its
  right operand only when the left one is false. The result is \<open>None\<close> when it depends
  on whether the \<^verbatim>\<open>userId\<close> of the entry and the \<^verbatim>\<open>id\<close> of the user are one and the same
  object.
\<close>

definition eventVisible :: "jsval \<Rightarrow> jsobj \<Rightarrow> (error + bool) option" where
  "eventVisible u entry =
     (case member_of u ''id'' of
        Inl e \<Rightarrow> Some (Inl e)
      | Inr uid \<Rightarrow>
          (case strict_eq (own_prop entry ''userId'') uid of
             None \<Rightarrow> None
           | Some True \<Rightarrow> Some (Inr True)
           | Some False \<Rightarrow>
               (case js_includes (own_prop entry ''action'') ''logout'' of
                  Inl e \<Rightarrow> Some (Inl e)
                | Inr True \<Rightarrow> Some (Inr True)
                | Inr False \<Rightarrow> Some (js_includes (own_prop entry ''action'') ''token''))))"

text \<open>
  \<^verbatim>\<open>Array.prototype.filter\<close> with a callback that may throw: the entries are tested in
  the order of the log, and the first exception ends the call.
\<close>

fun filterEvents :: "jsval \<Rightarrow> jsobj list \<Rightarrow> (error + jsobj list) option" where
  "filterEvents u [] = Some (Inr [])"
| "filterEvents u (entry # rest) =
     (case eventVisible u entry of
        None \<Rightarrow> None
      | Some (Inl e) \<Rightarrow> Some (Inl e)
      | Some (Inr keep) \<Rightarrow>
          (case filterEvents u rest of
             None \<Rightarrow> None
           | Some (Inl e) \<Rightarrow> Some (Inl e)
           | Some (Inr kept) \<Rightarrow> Some (Inr (if keep then entry # kept else kept))))"

text \<open>\<^verbatim>\<open>getSecurityEvents\<close> (lines 437-444).\<close>

definition getSecurityEvents :: "state \<Rightarrow> (error + jsobj list) option" where
  "getSecurityEvents s =
     (if \<not> truthy (user s) then Some (Inr []) else filterEvents (user s) (securityLog s))"

subsection \<open>Runs of the log\<close>

text \<open>A call \<^verbatim>\<open>addSecurityLog(action, details)\<close> made at a clock reading.\<close>

type_synonym append_op = "nat \<times> string \<times> jsobj"

definition entryOf :: "platform \<Rightarrow> append_op \<Rightarrow> jsobj" where
  "entryOf P op = (case op of (now, action, details) \<Rightarrow> logEntry P now action details)"

definition appendAll :: "platform \<Rightarrow> append_op list \<Rightarrow> state \<Rightarrow> state" where
  "appendAll P ops s =
     foldl (\<lambda>s' op. case op of (now, action, details) \<Rightarrow> addSecurityLog P now action details s') s ops"

subsection \<open>A platform and states for the examples\<close>

text \<open>
  The state of \<^verbatim>\<open>AuthProvider\<close> at its first render in a browser whose \<^verbatim>\<open>localStorage\<close> is
  empty.
\<close>

definition initialState :: state where
  "initialState =
     \<lparr>user = JNull, sessionExpiry = None, securityLog = [], storage = Map.empty,
      timers = [], pendingLogs = [], apiCalls = [], redirected = False\<rparr>"

text \<open>
  The examples run on \<open>samplePlatform\<close>. Its decoders are tables: \<open>sampleAtob\<close> and
  \<open>sampleParse\<close> hold the payloads \<^verbatim>\<open>{"exp":0}\<close>, \<^verbatim>\<open>{"exp":100}\<close>, \<^verbatim>\<open>{"exp":200}\<close>,
  \<^verbatim>\<open>{"exp":2592000}\<close> and \<^verbatim>\<open>{}\<close> with their base64 texts and fail elsewhere, and \<open>sampleGetTime\<close> reads the two
  instants it lists and no other. \<open>sampleISOString\<close> is right on the first day of 1970,
  and \<open>sampleStringify\<close> on values whose strings need no escape. No example converts
  a string, an array or an object to a number, or a value other than a string to a
  string, so \<open>to_number\<close> and \<open>to_string\<close> are placeholders.
\<close>

definition sampleAtob :: "string \<Rightarrow> string option" where
  \<open>sampleAtob s =
     (if s = ''eyJleHAiOjB9'' then Some ''{"exp":0}''
      else if s = ''eyJleHAiOjEwMH0='' then Some ''{"exp":100}''
      else if s = ''eyJleHAiOjIwMH0='' then Some ''{"exp":200}''
      else if s = ''eyJleHAiOjI1OTIwMDB9'' then Some ''{"exp":2592000}''
      else if s = ''e30='' then Some ''{}''
      else None)\<close>

definition sampleParse :: "string \<Rightarrow> jsval option" where
  \<open>sampleParse s =
     (if s = ''{"exp":0}'' then Some (JObj [(''exp'', JNum 0)])
      else if s = ''{"exp":100}'' then Some (JObj [(''exp'', JNum 100)])
      else if s = ''{"exp":200}'' then Some (JObj [(''exp'', JNum 200)])
      else if s = ''{"exp":2592000}'' then Some (JObj [(''exp'', JNum 2592000)])
      else if s = ''{}'' then Some (JObj [])
      else None)\<close>

definition digit :: "nat \<Rightarrow> char" where
  "digit d = ''0123456789'' ! (d mod 10)"

fun decimal :: "nat \<Rightarrow> string" where
  "decimal n = (if n < 10 then [digit n] else decimal (n div 10) @ [digit (n mod 10)])"

definition sampleISOString :: "nat \<Rightarrow> string" where
  "sampleISOString ms =
     ''1970-01-01T'' @
     [digit (ms div 36000000 mod 10), digit (ms div 3600000 mod 10)] @ '':'' @
     [digit (ms div 600000 mod 6), digit (ms div 60000 mod 10)] @ '':'' @
     [digit (ms div 10000 mod 6), digit (ms div 1000 mod 10)] @ ''.'' @
     [digit (ms div 100 mod 10), digit (ms div 10 mod 10), digit (ms mod 10)] @ ''Z''"

definition sampleGetTime :: "jsval \<Rightarrow> jsnum" where
  "sampleGetTime v =
     (if v = JStr ''1970-01-01T00:00:00.000Z'' then Fin 0
      else if v = JStr ''1970-01-01T00:05:00.000Z'' then Fin 300000
      else NaN)"

fun join_with :: "string \<Rightarrow> string list \<Rightarrow> string" where
  "join_with sep [] = []"
| "join_with sep [x] = x"
| "join_with sep (x # y # ys) = x @ sep @ join_with sep (y # ys)"

fun sampleStringify :: "jsval \<Rightarrow> string" where
  "sampleStringify JUndefined = ''null''"
| "sampleStringify JNull = ''null''"
| "sampleStringify (JBool b) = (if b then ''true'' else ''false'')"
| "sampleStringify (JNum n) = (if n < 0 then ''-'' else []) @ decimal (nat \<bar>n\<bar>)"
| "sampleStringify (JStr s) = [CHR 0x22] @ s @ [CHR 0x22]"
| "sampleStringify (JArr xs) = ''['' @ join_with '','' (map sampleStringify xs) @ '']''"
| "sampleStringify (JObj kvs) =
     ''{'' @ join_with '',''
              (concat (map (\<lambda>(k, v). if v = JUndefined then []
                                     else [[CHR 0x22] @ k @ [CHR 0x22] @ '':'' @ sampleStringify v])
                        kvs)) @ ''}''"

definition samplePlatform :: platform where
  "samplePlatform =
     \<lparr>userAgent = ''Mozilla/5.0'',
      atob = sampleAtob,
      JSON_parse = sampleParse,
      JSON_stringify = sampleStringify,
      to_number = (\<lambda>v. NaN),
      to_string = sampleStringify,
      type_error_message = ''TypeError'',
      toISOString = sampleISOString,
      getTime = sampleGetTime\<rparr>"

text \<open>A run of 101 appends whose entries differ by the detail \<^verbatim>\<open>n\<close>.\<close>

definition sampleOps :: "append_op list" where
  "sampleOps = map (\<lambda>n. (n, ''probe'', [(''n'', JNum (int n))])) [0..<101]"

subsection \<open>The throttle window in the specification's words\<close>

text \<open>
  The specification counts the \<^verbatim>\<open>login_attempt\<close> entries whose timestamp lies in the
  trailing five-minute window: the timestamp reads as an instant \<open>t\<close> with
  \<open>now - 300000 < t\<close> and \<open>t \<le> now\<close>. The code's own filter is \<open>recentAttempt\<close>.
\<close>

definition withinTrailingWindow :: "platform \<Rightarrow> nat \<Rightarrow> jsobj \<Rightarrow> bool" where
  "withinTrailingWindow P now entry =
     (case getTime P (own_prop entry ''timestamp'') of
        NaN \<Rightarrow> False
      | Fin t \<Rightarrow> int now - 5 * 60 * 1000 < t \<and> t \<le> int now)"

definition loginAttemptInWindow :: "platform \<Rightarrow> nat \<Rightarrow> jsobj \<Rightarrow> bool" where
  "loginAttemptInWindow P now entry =
     (own_prop entry ''action'' = JStr ''login_attempt'' \<and> withinTrailingWindow P now entry)"

text \<open>Five login attempts logged at the epoch, on an empty log.\<close>

definition throttledState :: state where
  "throttledState =
     appendAll samplePlatform (replicate 5 (0, ''login_attempt'', [(''email'', JStr ''a@b.c'')]))
       initialState"

subsection \<open>Well-formed tokens in the specification's words\<close>

text \<open>
  The specification's \<^verbatim>\<open>decode\<close>: a token is well formed when it has exactly three
  dot-separated segments and the middle one is base64-encoded JSON; \<open>decodeClaims\<close>
  gives the claims of a well-formed token and \<open>None\<close> for a malformed one.
\<close>

definition decodeClaims :: "platform \<Rightarrow> string \<Rightarrow> jsval option" where
  "decodeClaims P str =
     (let parts = split_on CHR ''.'' str
      in if length parts \<noteq> 3 then None
         else (case atob P (parts ! 1) of
                 None \<Rightarrow> None
               | Some decoded \<Rightarrow> JSON_parse P decoded))"

text \<open>
  A response of the login endpoint whose token has the claims \<^verbatim>\<open>{"exp":100}\<close>: it
  expires 100 seconds after the epoch.
\<close>

definition expiredTokenData :: jsval where
  "expiredTokenData = JObj [(''token'', JStr ''h.eyJleHAiOjEwMH0=.s''), (''id'', JStr ''u1'')]"

subsection \<open>Two logins in a row\<close>



subsection \<open>The events filter in the specification's words\<close>

text \<open>
  The specification's \<^verbatim>\<open>queryForUser\<close>: the entries whose \<^verbatim>\<open>userId\<close> is the identity of
  the user, and those whose action name contains \<^verbatim>\<open>logout\<close> or \<^verbatim>\<open>token\<close>. An entry
  has a string action when \<^verbatim>\<open>addSecurityLog\<close> wrote it from details with no property
  \<^verbatim>\<open>action\<close>, as every call of the module does.
\<close>

definition stringAction :: "jsobj \<Rightarrow> bool" where
  "stringAction entry = (case own_prop entry ''action'' of JStr a \<Rightarrow> True | _ \<Rightarrow> False)"

definition actionIncludes :: "jsobj \<Rightarrow> string \<Rightarrow> bool" where
  "actionIncludes entry t =
     (case own_prop entry ''action'' of JStr a \<Rightarrow> str_includes a t | _ \<Rightarrow> False)"

definition visibleTo :: "jsval \<Rightarrow> jsobj \<Rightarrow> bool" where
  "visibleTo u entry =
     (own_prop entry ''userId'' = opt_member u ''id'' \<or>
      actionIncludes entry ''logout'' \<or> actionIncludes entry ''token'')"

text \<open>
  The state after a logout in a fresh browser, and a state with a user signed in and
  four entries in the log.
\<close>

definition loggedOut :: state where
  "loggedOut = logout samplePlatform 1000 initialState"

definition signedIn :: state where
  "signedIn =
     (appendAll samplePlatform
        [(0, ''login_success'', [(''userId'', JStr ''u1'')]),
         (1000, ''login_attempt'', [(''email'', JStr ''a@b.c'')]),
         (2000, ''token_refreshed'', []),
         (3000, ''login_success'', [(''userId'', JStr ''u2'')])]
        initialState)
     \<lparr>user := JObj [(''id'', JStr ''u1'')]\<rparr>"

subsection \<open>A zero expiry and a delay beyond 32 bits\<close>

text \<open>
  A response of the login endpoint whose token has the claims \<^verbatim>\<open>{"exp":0}\<close>; a response
  of the refresh endpoint whose token has the claims \<^verbatim>\<open>{"exp":100}\<close>; a browser whose
  stored refresh token has the claims \<^verbatim>\<open>{"exp":0}\<close>; and the state after a login at the
  epoch that returns a token with the claims \<^verbatim>\<open>{"exp":2592000}\<close>, valid for 30 days.
\<close>

definition zeroExpiryData :: jsval where
  "zeroExpiryData = JObj [(''token'', JStr ''h.eyJleHAiOjB9.s''), (''id'', JStr ''u1'')]"

definition freshTokenData :: jsval where
  "freshTokenData = JObj [(''token'', JStr ''h.eyJleHAiOjEwMH0=.s'')]"

definition staleRefreshState :: state where
  "staleRefreshState = setItem ''refreshToken'' ''h.eyJleHAiOjB9.s'' initialState"

definition longLogin :: state where
  "longLogin =
     snd (login samplePlatform 0 0
            (Resolved (JObj [(''token'', JStr ''h.eyJleHAiOjI1OTIwMDB9.s''), (''id'', JStr ''u1'')]))
            ''a@b.c'' ''pw'' initialState)"

section \<open>Properties\<close>

subsection \<open>Strict equality\<close>

lemma strict_eq_primitive: "\<not> is_reference b \<Longrightarrow> strict_eq a b = Some (a = b)"
  by (simp add: strict_eq_def)

lemma strict_eq_JStr: "strict_eq a (JStr s) = Some (a = JStr s)"
  by (simp add: strict_eq_def)

subsection \<open>The security log is capped and newest first\<close>

lemma securityLog_addSecurityLog:
  "securityLog (addSecurityLog P now action details s) =
     take 100 (logEntry P now action details # securityLog s)"
  by (simp add: addSecurityLog_def setItem_def newLog_def Let_def)

lemma take_Cons_take: "take n (x # take n ys) = take n (x # ys)"
  by (cases n) simp_all

lemma appendAll_snoc:
  "appendAll P (ops @ [op]) s =
     addSecurityLog P (fst op) (fst (snd op)) (snd (snd op)) (appendAll P ops s)"
  by (simp add: appendAll_def split: prod.splits)

lemma securityLog_appendAll_snoc:
  "securityLog (appendAll P (ops @ [op]) s) =
     take 100 (entryOf P op # securityLog (appendAll P ops s))"
  by (simp add: appendAll_snoc securityLog_addSecurityLog entryOf_def split: prod.splits)

lemma securityLog_appendAll:
  "ops \<noteq> [] \<Longrightarrow>
   securityLog (appendAll P ops s) = take 100 (rev (map (entryOf P) ops) @ securityLog s)"
proof (induction ops rule: rev_induct)
  case Nil
  then show ?case by simp
next
  case (snoc op ops)
  show ?case
  proof (cases "ops = []")
    case True
    then show ?thesis
      using securityLog_appendAll_snoc [of P "[]" op s] by (simp add: appendAll_def)
  next
    case False
    then have "securityLog (appendAll P ops s) =
                 take 100 (rev (map (entryOf P) ops) @ securityLog s)"
      by (rule snoc.IH)
    then have "securityLog (appendAll P (ops @ [op]) s) =
                 take 100 (entryOf P op # take 100 (rev (map (entryOf P) ops) @ securityLog s))"
      by (simp only: securityLog_appendAll_snoc)
    also have "\<dots> = take 100 (entryOf P op # (rev (map (entryOf P) ops) @ securityLog s))"
      by (rule take_Cons_take)
    finally show ?thesis by simp
  qed
qed

text \<open>
  Claim C3. Whatever the state a run of appends starts from, after each append the log
  has at most 100 entries and the entry just built is its first. After 101 appends to an
  empty log the log holds the entries of the 100 latest appends, newest first, and the
  entry of the first append is no longer there (it is none of them, when the 101
  entries differ from one another).
\<close>

theorem securityLog_capped_newest_first:
  "(ops \<noteq> [] \<longrightarrow>
      length (securityLog (appendAll P ops s)) \<le> 100 \<and>
      hd (securityLog (appendAll P ops s)) = entryOf P (last ops)) \<and>
   (securityLog s = [] \<and> length ops = 101 \<longrightarrow>
      securityLog (appendAll P ops s) = rev (map (entryOf P) (tl ops)) \<and>
      (distinct (map (entryOf P) ops) \<longrightarrow>
         entryOf P (hd ops) \<notin> set (securityLog (appendAll P ops s))))"
proof (intro conjI impI)
  assume "ops \<noteq> []"
  then show "length (securityLog (appendAll P ops s)) \<le> 100"
    by (simp add: securityLog_appendAll)
next
  assume ne: "ops \<noteq> []"
  then obtain ops' op where ops: "ops = ops' @ [op]"
    by (metis rev_exhaust)
  show "hd (securityLog (appendAll P ops s)) = entryOf P (last ops)"
    unfolding ops by (simp add: securityLog_appendAll_snoc)
next
  assume a: "securityLog s = [] \<and> length ops = 101"
  then obtain op ops' where ops: "ops = op # ops'" and len: "length ops' = 100"
    by (cases ops) auto
  have "securityLog (appendAll P ops s) = take 100 (rev (map (entryOf P) ops))"
    using a ops by (simp add: securityLog_appendAll del: take_append)
  also have "\<dots> = rev (map (entryOf P) ops')"
    using len by (simp add: ops)
  finally show eq: "securityLog (appendAll P ops s) = rev (map (entryOf P) (tl ops))"
    by (simp add: ops)
  assume "distinct (map (entryOf P) ops)"
  then show "entryOf P (hd ops) \<notin> set (securityLog (appendAll P ops s))"
    unfolding eq by (simp add: ops)
qed

lemma logEntry_probe:
  "logEntry P now a [(''n'', v)] =
     [(''timestamp'', JStr (toISOString P now)), (''action'', JStr a),
      (''userAgent'', JStr (userAgent P)), (''ip'', JStr ''unknown''),
      (''location'', JStr ''unknown''), (''n'', v)]"
  by (simp add: logEntry_def spread_def own_prop_def or_else_def)

theorem securityLog_capped_newest_first_witness:
  "sampleOps \<noteq> [] \<and> securityLog initialState = [] \<and> length sampleOps = 101 \<and>
   distinct (map (entryOf samplePlatform) sampleOps) \<and>
   length (securityLog (appendAll samplePlatform sampleOps initialState)) \<le> 100 \<and>
   hd (securityLog (appendAll samplePlatform sampleOps initialState)) =
     entryOf samplePlatform (last sampleOps) \<and>
   securityLog (appendAll samplePlatform sampleOps initialState) =
     rev (map (entryOf samplePlatform) (tl sampleOps)) \<and>
   entryOf samplePlatform (hd sampleOps) \<notin>
     set (securityLog (appendAll samplePlatform sampleOps initialState))"
proof -
  have 1: "sampleOps \<noteq> []" and 2: "length sampleOps = 101"
    by (simp_all add: sampleOps_def)
  have 3: "securityLog initialState = []"
    by (simp add: initialState_def)
  have 4: "distinct (map (entryOf samplePlatform) sampleOps)"
    by (simp add: sampleOps_def distinct_map inj_on_def entryOf_def logEntry_probe comp_def)
  show ?thesis
    using 1 2 3 4 securityLog_capped_newest_first [of sampleOps samplePlatform initialState]
    by blast
qed

subsection \<open>Throttled login\<close>

lemma addSecurityLog_frame:
  "user (addSecurityLog P now a d s) = user s"
  "sessionExpiry (addSecurityLog P now a d s) = sessionExpiry s"
  "timers (addSecurityLog P now a d s) = timers s"
  "pendingLogs (addSecurityLog P now a d s) = pendingLogs s"
  "apiCalls (addSecurityLog P now a d s) = apiCalls s"
  "redirected (addSecurityLog P now a d s) = redirected s"
  by (simp_all add: addSecurityLog_def setItem_def Let_def)

lemma storage_addSecurityLog:
  "k \<noteq> ''securityLog'' \<Longrightarrow> storage (addSecurityLog P now a d s) k = storage s k"
  by (simp add: addSecurityLog_def setItem_def Let_def)

lemma logEntry_email:
  "logEntry P now a [(''email'', v)] =
     [(''timestamp'', JStr (toISOString P now)), (''action'', JStr a),
      (''userAgent'', JStr (userAgent P)), (''ip'', JStr ''unknown''),
      (''location'', JStr ''unknown''), (''email'', v)]"
  by (simp add: logEntry_def spread_def own_prop_def or_else_def)

lemma length_filter_mono:
  "(\<And>x. p x \<Longrightarrow> q x) \<Longrightarrow> length (filter p xs) \<le> length (filter q xs)"
  by (induction xs) auto

lemma loginAttemptInWindow_recent:
  "loginAttemptInWindow P now entry \<Longrightarrow> recentAttempt P now entry"
  by (auto simp: loginAttemptInWindow_def withinTrailingWindow_def recentAttempt_def strict_eq_JStr
      split: jsnum.splits)

text \<open>
  Claim C1. When the log holds at least five \<^verbatim>\<open>login_attempt\<close> entries whose timestamps
  lie in the trailing five-minute window of the clock, \<^verbatim>\<open>login\<close> fails: it returns the
  object with \<^verbatim>\<open>success: false\<close> and the message of the rate limit. The state it leaves
  is the one \<^verbatim>\<open>addSecurityLog\<close> gives for a \<^verbatim>\<open>rate_limit_exceeded\<close> entry, which is the
  first of the log, and no request has been sent.
\<close>

theorem login_rate_limited:
  assumes "5 \<le> length (filter (loginAttemptInWindow P now) (securityLog s))"
  shows "fst (login P now t1 res email password s) =
           JObj [(''success'', JBool False),
                 (''message'', JStr ''Too many login attempts. Please try again later.'')] \<and>
         snd (login P now t1 res email password s) =
           addSecurityLog P now ''rate_limit_exceeded'' [(''email'', JStr email)] s \<and>
         securityLog (snd (login P now t1 res email password s)) =
           take 100 (logEntry P now ''rate_limit_exceeded'' [(''email'', JStr email)] # securityLog s) \<and>
         own_prop (logEntry P now ''rate_limit_exceeded'' [(''email'', JStr email)]) ''action'' =
           JStr ''rate_limit_exceeded'' \<and>
         apiCalls (snd (login P now t1 res email password s)) = apiCalls s"
proof -
  have "length (filter (loginAttemptInWindow P now) (securityLog s)) \<le> length (recentAttempts P now s)"
    unfolding recentAttempts_def by (rule length_filter_mono) (rule loginAttemptInWindow_recent)
  with assms have "5 \<le> length (recentAttempts P now s)"
    by simp
  then have run: "login P now t1 res email password s =
      (JObj [(''success'', JBool False),
             (''message'', JStr ''Too many login attempts. Please try again later.'')],
       addSecurityLog P now ''rate_limit_exceeded'' [(''email'', JStr email)] s)"
    by (simp add: login_def login_try_def)
  show ?thesis
    unfolding run by (simp add: securityLog_addSecurityLog addSecurityLog_frame logEntry_email own_prop_def)
qed

lemma securityLog_throttledState:
  "securityLog throttledState =
     replicate 5 (logEntry samplePlatform 0 ''login_attempt'' [(''email'', JStr ''a@b.c'')])"
  by (simp add: throttledState_def appendAll_def securityLog_addSecurityLog numeral_eq_Suc initialState_def)

lemma sampleISOString_0: "sampleISOString 0 = ''1970-01-01T00:00:00.000Z''"
  by (simp add: sampleISOString_def digit_def)

theorem login_rate_limited_witness:
  "5 \<le> length (filter (loginAttemptInWindow samplePlatform 1000) (securityLog throttledState)) \<and>
   fst (login samplePlatform 1000 2000 (Resolved JNull) ''a@b.c'' ''secret'' throttledState) =
     JObj [(''success'', JBool False),
           (''message'', JStr ''Too many login attempts. Please try again later.'')] \<and>
   apiCalls (snd (login samplePlatform 1000 2000 (Resolved JNull) ''a@b.c'' ''secret'' throttledState)) =
     apiCalls throttledState"
proof -
  have h: "5 \<le> length (filter (loginAttemptInWindow samplePlatform 1000) (securityLog throttledState))"
    by (simp add: securityLog_throttledState logEntry_email loginAttemptInWindow_def
        withinTrailingWindow_def own_prop_def samplePlatform_def sampleGetTime_def sampleISOString_0)
  show ?thesis
    using h login_rate_limited [OF h, of 2000 "Resolved JNull" "''a@b.c''" "''secret''"]
    by (simp add: addSecurityLog_frame)
qed

lemma length_filter_take: "length (filter p (take n xs)) \<le> length (filter p xs)"
proof -
  have "length (filter p xs) = length (filter p (take n xs)) + length (filter p (drop n xs))"
    by (metis append_take_drop_id filter_append length_append)
  then show ?thesis by simp
qed

lemma addSecurityLog_eq:
  "addSecurityLog P now a d s =
     s\<lparr>securityLog := take 100 (logEntry P now a d # securityLog s),
       storage := (storage s)(''securityLog'' \<mapsto>
         JSON_stringify P (JArr (map JObj (take 100 (logEntry P now a d # securityLog s)))))\<rparr>"
  by (simp add: addSecurityLog_def setItem_def newLog_def Let_def)

lemma rate_limit_entry_not_attempt:
  "\<not> recentAttempt P t (logEntry P now ''rate_limit_exceeded'' [(''email'', v)])"
  by (simp add: recentAttempt_def logEntry_email own_prop_def strict_eq_JStr)

text \<open>
  Claim C10. A call of \<^verbatim>\<open>login\<close> in a state whose throttle count is five or more
  changes the log and its stored copy, and nothing else: the log gains the one entry
  \<^verbatim>\<open>rate_limit_exceeded\<close>, which no throttle count counts, so that the count at any
  clock reading is not larger than before; the stored tokens, the user, the session
  expiry, the timers, the pending log entries and the requests sent are as they were.
\<close>

theorem throttled_login_frame:
  assumes "5 \<le> length (recentAttempts P now s)"
  shows "(let s' = snd (login P now t1 res email password s);
              entry = logEntry P now ''rate_limit_exceeded'' [(''email'', JStr email)]
          in s' = s\<lparr>securityLog := take 100 (entry # securityLog s),
                      storage := (storage s)(''securityLog'' \<mapsto>
                        JSON_stringify P (JArr (map JObj (take 100 (entry # securityLog s)))))\<rparr> \<and>
             own_prop entry ''action'' = JStr ''rate_limit_exceeded'' \<and>
             \<not> recentAttempt P t entry \<and>
             length (recentAttempts P t s') \<le> length (recentAttempts P t s) \<and>
             storage s' ''token'' = storage s ''token'' \<and>
             storage s' ''refreshToken'' = storage s ''refreshToken'' \<and>
             user s' = user s \<and> sessionExpiry s' = sessionExpiry s \<and>
             timers s' = timers s \<and> pendingLogs s' = pendingLogs s \<and> apiCalls s' = apiCalls s)"
proof -
  let ?entry = "logEntry P now ''rate_limit_exceeded'' [(''email'', JStr email)]"
  let ?s' = "addSecurityLog P now ''rate_limit_exceeded'' [(''email'', JStr email)] s"
  from assms have run: "snd (login P now t1 res email password s) = ?s'"
    by (simp add: login_def login_try_def)
  have na: "\<not> recentAttempt P t ?entry"
    by (rule rate_limit_entry_not_attempt)
  have "length (recentAttempts P t ?s') =
          length (filter (recentAttempt P t) (take 100 (?entry # securityLog s)))"
    by (simp add: recentAttempts_def securityLog_addSecurityLog)
  also have "\<dots> \<le> length (filter (recentAttempt P t) (?entry # securityLog s))"
    by (rule length_filter_take)
  also have "\<dots> = length (recentAttempts P t s)"
    using na by (simp add: recentAttempts_def)
  finally have cnt: "length (recentAttempts P t ?s') \<le> length (recentAttempts P t s)" .
  have act: "own_prop ?entry ''action'' = JStr ''rate_limit_exceeded''"
    by (simp add: logEntry_email own_prop_def)
  have fr: "storage ?s' ''token'' = storage s ''token''"
    "storage ?s' ''refreshToken'' = storage s ''refreshToken''"
    "user ?s' = user s" "sessionExpiry ?s' = sessionExpiry s" "timers ?s' = timers s"
    "pendingLogs ?s' = pendingLogs s" "apiCalls ?s' = apiCalls s"
    by (simp_all add: addSecurityLog_frame storage_addSecurityLog)
  show ?thesis
    unfolding Let_def run by (intro conjI addSecurityLog_eq na cnt act fr)
qed

theorem throttled_login_frame_witness:
  "5 \<le> length (recentAttempts samplePlatform 2000 throttledState) \<and>
   length (recentAttempts samplePlatform 2000
            (snd (login samplePlatform 2000 3000 (Resolved JNull) ''x@y.z'' ''pw'' throttledState))) \<le>
     length (recentAttempts samplePlatform 2000 throttledState) \<and>
   storage (snd (login samplePlatform 2000 3000 (Resolved JNull) ''x@y.z'' ''pw'' throttledState)) ''token'' =
     storage throttledState ''token'' \<and>
   user (snd (login samplePlatform 2000 3000 (Resolved JNull) ''x@y.z'' ''pw'' throttledState)) =
     user throttledState"
proof -
  have h: "5 \<le> length (recentAttempts samplePlatform 2000 throttledState)"
    by (simp add: recentAttempts_def recentAttempt_def securityLog_throttledState logEntry_email
        own_prop_def samplePlatform_def sampleGetTime_def sampleISOString_0 strict_eq_JStr)
  note t = throttled_login_frame [OF h, of 3000 "Resolved JNull" "''x@y.z''" "''pw''" 2000,
      unfolded Let_def]
  show ?thesis
    using h t by blast
qed

subsection \<open>Logout and failed refresh\<close>

lemma logout_as_frame:
  "user (logout_as cu P now s) = JNull"
  "sessionExpiry (logout_as cu P now s) = None"
  "timers (logout_as cu P now s) = timers s"
  "pendingLogs (logout_as cu P now s) = pendingLogs s"
  "apiCalls (logout_as cu P now s) = apiCalls s"
  "redirected (logout_as cu P now s) = redirected s"
  by (simp_all add: logout_as_def removeItem_def addSecurityLog_frame Let_def)

lemma securityLog_logout_as:
  "securityLog (logout_as cu P now s) =
     take 100 (logEntry P now ''user_logout'' [(''userId'', opt_member cu ''id'')] # securityLog s)"
  by (simp add: logout_as_def removeItem_def securityLog_addSecurityLog Let_def)

lemma storage_logout_as:
  "storage (logout_as cu P now s) k =
     (if k = ''token'' \<or> k = ''refreshToken'' \<or> k = ''oauth_state'' then None
      else storage (addSecurityLog P now ''user_logout'' [(''userId'', opt_member cu ''id'')] s) k)"
  by (simp add: logout_as_def removeItem_def Let_def)

lemma storage_logout_as_tokens:
  "storage (logout_as cu P now s) ''token'' = None"
  "storage (logout_as cu P now s) ''refreshToken'' = None"
  "storage (logout_as cu P now s) ''oauth_state'' = None"
  by (simp_all add: storage_logout_as)

lemma storage_logout_as_other:
  "k \<noteq> ''securityLog'' \<Longrightarrow>
   storage (logout_as cu P now s) k =
     (if k = ''token'' \<or> k = ''refreshToken'' \<or> k = ''oauth_state'' then None else storage s k)"
  by (simp add: storage_logout_as storage_addSecurityLog)

text \<open>
  Claim C6. \<^verbatim>\<open>logout\<close> has no statement that throws, so it is a total function of the
  state. After one call, and after a second call made right after it, no user is signed
  in, no session expiry is set and \<^verbatim>\<open>localStorage\<close> holds neither \<^verbatim>\<open>token\<close> nor
  \<^verbatim>\<open>refreshToken\<close> nor \<^verbatim>\<open>oauth_state\<close>. The two end states agree on every field but
  the security log and on every stored key but \<^verbatim>\<open>securityLog\<close>: each call logs its own
  \<^verbatim>\<open>user_logout\<close> entry.
\<close>

theorem logout_twice:
  "(let once = logout P t1 s; twice = logout P t2 once
    in user once = JNull \<and> sessionExpiry once = None \<and>
       storage once ''token'' = None \<and> storage once ''refreshToken'' = None \<and>
       storage once ''oauth_state'' = None \<and>
       user twice = JNull \<and> sessionExpiry twice = None \<and>
       storage twice ''token'' = None \<and> storage twice ''refreshToken'' = None \<and>
       storage twice ''oauth_state'' = None \<and>
       (storage twice)(''securityLog'' := None) = (storage once)(''securityLog'' := None) \<and>
       timers twice = timers once \<and> pendingLogs twice = pendingLogs once \<and>
       apiCalls twice = apiCalls once \<and> redirected twice = redirected once)"
proof -
  let ?once = "logout P t1 s"
  let ?twice = "logout P t2 ?once"
  have st: "(storage ?twice)(''securityLog'' := None) = (storage ?once)(''securityLog'' := None)"
  proof
    fix k
    show "((storage ?twice)(''securityLog'' := None)) k = ((storage ?once)(''securityLog'' := None)) k"
      by (cases "k = ''securityLog''") (simp_all add: logout_def storage_logout_as_other)
  qed
  show ?thesis
    unfolding Let_def
    by (intro conjI st) (simp_all add: logout_def logout_as_frame storage_logout_as_tokens)
qed

theorem logout_twice_witness:
  "user (logout samplePlatform 2000 (logout samplePlatform 1000 initialState)) = JNull \<and>
   storage (logout samplePlatform 2000 (logout samplePlatform 1000 initialState)) ''token'' = None \<and>
   timers (logout samplePlatform 2000 (logout samplePlatform 1000 initialState)) =
     timers (logout samplePlatform 1000 initialState)"
  using logout_twice [of samplePlatform 1000 initialState 2000, unfolded Let_def] by blast

lemma logEntry_error:
  "logEntry P now a [(''error'', v)] =
     [(''timestamp'', JStr (toISOString P now)), (''action'', JStr a),
      (''userAgent'', JStr (userAgent P)), (''ip'', JStr ''unknown''),
      (''location'', JStr ''unknown''), (''error'', v)]"
  by (simp add: logEntry_def spread_def own_prop_def or_else_def)

text \<open>
  The guard of line 345. When \<^verbatim>\<open>localStorage\<close> holds no refresh token that passes
  \<^verbatim>\<open>isValidToken\<close>, \<^verbatim>\<open>refreshAuthToken\<close> throws \<^verbatim>\<open>Invalid refresh token\<close> before any
  request, returns the failure object, logs \<^verbatim>\<open>token_refresh_failed\<close> and then logs out:
  the three stored keys are removed, no user is signed in, and no request has been sent.
  A stored token is rejected here only as far as \<^verbatim>\<open>isValidToken\<close> rejects it.
\<close>

lemma refresh_without_valid_token:
  assumes "\<not> (truthy (getItem s ''refreshToken'') \<and> isValidToken P t0 (getItem s ''refreshToken''))"
  shows "(let out = refreshAuthToken P t0 t1 res s; s' = snd out;
              failed = logEntry P t0 ''token_refresh_failed'' [(''error'', JStr ''Invalid refresh token'')]
          in fst (refresh_try P t0 t1 res s) = Inl InvalidRefreshToken \<and>
             fst out = JObj [(''success'', JBool False)] \<and>
             storage s' ''token'' = None \<and> storage s' ''refreshToken'' = None \<and>
             storage s' ''oauth_state'' = None \<and>
             user s' = JNull \<and> sessionExpiry s' = None \<and>
             securityLog s' =
               take 100 (logEntry P t0 ''user_logout'' [(''userId'', opt_member (user s) ''id'')] #
                         take 100 (failed # securityLog s)) \<and>
             own_prop failed ''action'' = JStr ''token_refresh_failed'' \<and>
             apiCalls s' = apiCalls s)"
proof -
  let ?failed = "logEntry P t0 ''token_refresh_failed'' [(''error'', JStr ''Invalid refresh token'')]"
  from assms have thrown: "refresh_try P t0 t1 res s = (Inl InvalidRefreshToken, t0, s)"
    by (auto simp: refresh_try_def Let_def)
  have out: "refreshAuthToken P t0 t1 res s =
      (JObj [(''success'', JBool False)],
       logout_as (user s) P t0
         (addSecurityLog P t0 ''token_refresh_failed'' [(''error'', JStr ''Invalid refresh token'')] s))"
    by (simp add: refreshAuthToken_def thrown)
  have act: "own_prop ?failed ''action'' = JStr ''token_refresh_failed''"
    by (simp add: logEntry_error own_prop_def)
  show ?thesis
    unfolding Let_def out thrown
    by (intro conjI act)
      (simp_all add: logout_as_frame storage_logout_as_tokens securityLog_logout_as
        securityLog_addSecurityLog addSecurityLog_frame del: take_Cons_numeral)
qed

lemma refresh_without_valid_token_example:
  "\<not> (truthy (getItem initialState ''refreshToken'') \<and>
      isValidToken samplePlatform 1000 (getItem initialState ''refreshToken'')) \<and>
   fst (refreshAuthToken samplePlatform 1000 2000 (Resolved JNull) initialState) =
     JObj [(''success'', JBool False)] \<and>
   user (snd (refreshAuthToken samplePlatform 1000 2000 (Resolved JNull) initialState)) = JNull \<and>
   apiCalls (snd (refreshAuthToken samplePlatform 1000 2000 (Resolved JNull) initialState)) =
     apiCalls initialState"
proof -
  have h: "\<not> (truthy (getItem initialState ''refreshToken'') \<and>
      isValidToken samplePlatform 1000 (getItem initialState ''refreshToken''))"
    by (simp add: getItem_def initialState_def)
  note t = refresh_without_valid_token [OF h, of 2000 "Resolved JNull", unfolded Let_def]
  show ?thesis
    using h t by blast
qed

subsection \<open>Token check\<close>

lemma decodeClaims_nonempty: "decodeClaims P str = Some payload \<Longrightarrow> str \<noteq> []"
  by (auto simp: decodeClaims_def)

lemma isValidToken_decode:
  "isValidToken P now (JStr str) =
     (case decodeClaims P str of
        None \<Rightarrow> False
      | Some payload \<Rightarrow>
          (case member_of payload ''exp'' of
             Inl e \<Rightarrow> False
           | Inr exp \<Rightarrow> \<not> (truthy exp \<and> int_ge (int now) (num_times (ToNumber P exp) 1000))))"
  by (cases "str = []")
    (auto simp: isValidToken_def decodeClaims_def Let_def split: option.splits sum.splits)

lemma isValidToken_malformed:
  "decodeClaims P str = None \<Longrightarrow> \<not> isValidToken P now (JStr str)"
  by (simp add: isValidToken_decode)

lemma isValidToken_not_string:
  "(\<And>s. token \<noteq> JStr s) \<Longrightarrow> \<not> isValidToken P now token"
  by (cases token) (auto simp: isValidToken_def)

lemma isValidToken_not_expired:
  "decodeClaims P str = Some payload \<Longrightarrow> member_of payload ''exp'' = Inr (JNum e) \<Longrightarrow>
   int now < e * 1000 \<Longrightarrow> isValidToken P now (JStr str)"
  by (simp add: isValidToken_decode)

lemma isValidToken_no_exp:
  "decodeClaims P str = Some payload \<Longrightarrow> member_of payload ''exp'' = Inr JUndefined \<Longrightarrow>
   isValidToken P now (JStr str)"
  by (simp add: isValidToken_decode)

lemma isValidToken_expired:
  "decodeClaims P str = Some payload \<Longrightarrow> member_of payload ''exp'' = Inr (JNum e) \<Longrightarrow>
   e \<noteq> 0 \<Longrightarrow> e * 1000 \<le> int now \<Longrightarrow> \<not> isValidToken P now (JStr str)"
  by (simp add: isValidToken_decode)

lemma isValidToken_exp_zero:
  "decodeClaims P str = Some payload \<Longrightarrow> member_of payload ''exp'' = Inr (JNum 0) \<Longrightarrow>
   isValidToken P now (JStr str)"
  by (simp add: isValidToken_decode)

lemma split_on_sample0: "split_on CHR ''.'' ''h.eyJleHAiOjB9.s'' = [''h'', ''eyJleHAiOjB9'', ''s'']"
  by simp

lemma split_on_sample100:
  "split_on CHR ''.'' ''h.eyJleHAiOjEwMH0=.s'' = [''h'', ''eyJleHAiOjEwMH0='', ''s'']"
  by simp


lemma decodeClaims_sample0:
  "decodeClaims samplePlatform ''h.eyJleHAiOjB9.s'' = Some (JObj [(''exp'', JNum 0)])"
  by (simp add: decodeClaims_def split_on_sample0 samplePlatform_def sampleAtob_def sampleParse_def
      del: split_on.simps)

lemma decodeClaims_sample100:
  "decodeClaims samplePlatform ''h.eyJleHAiOjEwMH0=.s'' = Some (JObj [(''exp'', JNum 100)])"
  by (simp add: decodeClaims_def split_on_sample100 samplePlatform_def sampleAtob_def sampleParse_def
      del: split_on.simps)


text \<open>
  Claim C2. \<^verbatim>\<open>isValidToken\<close> is false on every malformed token
  (\<open>isValidToken_malformed\<close>, \<open>isValidToken_not_string\<close>), true on every well-formed
  token whose \<^verbatim>\<open>exp\<close> is after the clock (\<open>isValidToken_not_expired\<close>), and false when
  \<^verbatim>\<open>exp\<close> is at or before the clock and is not zero (\<open>isValidToken_expired\<close>). The
  guard \<^verbatim>\<open>payload.exp && ...\<close> reads \<^verbatim>\<open>exp\<close> for truth first, so the expiry \<^verbatim>\<open>0\<close>
  is never compared with the clock (\<open>isValidToken_exp_zero\<close>): the token
  \<^verbatim>\<open>h.eyJleHAiOjB9.s\<close>, whose claims are \<^verbatim>\<open>{"exp":0}\<close>, is accepted at the clock
  reading 1700000000000, long after its expiry.
\<close>

theorem isValidToken_accepts_expiry_zero:
  "decodeClaims samplePlatform ''h.eyJleHAiOjB9.s'' = Some (JObj [(''exp'', JNum 0)]) \<and>
   (0::int) * 1000 \<le> int 1700000000000 \<and>
   isValidToken samplePlatform 1700000000000 (JStr ''h.eyJleHAiOjB9.s'') = True"
  by (simp add: isValidToken_decode decodeClaims_sample0 own_prop_def)

subsection \<open>Session scheduler\<close>

lemma setSession_decode:
  "decodeClaims P str = Some payload \<Longrightarrow>
   setSession P now (JStr str) s =
     (case member_of payload ''exp'' of
        Inl e \<Rightarrow> s
      | Inr exp \<Rightarrow>
          if truthy exp then
            (case num_minus (num_minus (num_times (ToNumber P exp) 1000) (int now)) 60000 of
               NaN \<Rightarrow> s\<lparr>sessionExpiry := Some (num_times (ToNumber P exp) 1000)\<rparr>
             | Fin timeout \<Rightarrow>
                 if timeout > 0
                 then s\<lparr>sessionExpiry := Some (num_times (ToNumber P exp) 1000),
                        timers := timers s @ [\<lparr>set_at = now, delay = timeout\<rparr>]\<rparr>
                 else s\<lparr>sessionExpiry := Some (num_times (ToNumber P exp) 1000)\<rparr>)
          else s)"
proof -
  assume dec: "decodeClaims P str = Some payload"
  then obtain decoded where
    parts: "length (split_on CHR ''.'' str) = 3" and
    at: "atob P (split_on CHR ''.'' str ! 1) = Some decoded" and
    js: "JSON_parse P decoded = Some payload"
    by (auto simp: decodeClaims_def Let_def split: if_splits option.splits)
  from dec have ne: "str \<noteq> []"
    by (rule decodeClaims_nonempty)
  show ?thesis
    using parts at js ne
    by (simp add: setSession_def Let_def split: sum.splits jsnum.splits)
qed

text \<open>
  What \<^verbatim>\<open>setSession\<close> hands to \<^verbatim>\<open>setTimeout\<close>. For a well-formed token, \<^verbatim>\<open>setSession\<close>
  called at \<open>now\<close> adds one timer with the delay \<open>exp * 1000 - now - 60000\<close> when the
  claims carry the number \<^verbatim>\<open>exp\<close> and that delay is positive; it adds no timer when the
  delay is not positive, and none when the claims carry no \<^verbatim>\<open>exp\<close>.
\<close>

lemma setSession_schedules:
  assumes "decodeClaims P str = Some payload"
  shows "(member_of payload ''exp'' = Inr (JNum e) \<and> e * 1000 - int now - 60000 > 0 \<longrightarrow>
            timers (setSession P now (JStr str) s) =
              timers s @ [\<lparr>set_at = now, delay = e * 1000 - int now - 60000\<rparr>]) \<and>
         (member_of payload ''exp'' = Inr (JNum e) \<and> \<not> e * 1000 - int now - 60000 > 0 \<longrightarrow>
            timers (setSession P now (JStr str) s) = timers s) \<and>
         (member_of payload ''exp'' = Inr JUndefined \<longrightarrow>
            timers (setSession P now (JStr str) s) = timers s)"
  by (auto simp: setSession_decode [OF assms])

lemma setSession_schedules_example:
  "decodeClaims samplePlatform ''h.eyJleHAiOjEwMH0=.s'' = Some (JObj [(''exp'', JNum 100)]) \<and>
   member_of (JObj [(''exp'', JNum 100)]) ''exp'' = Inr (JNum 100) \<and>
   (100::int) * 1000 - int 0 - 60000 > 0 \<and>
   timers (setSession samplePlatform 0 (JStr ''h.eyJleHAiOjEwMH0=.s'') initialState) =
     [\<lparr>set_at = 0, delay = 40000\<rparr>]"
proof -
  have m: "member_of (JObj [(''exp'', JNum 100)]) ''exp'' = Inr (JNum 100)"
    by (simp add: own_prop_def)
  have t: "timers initialState = []"
    by (simp add: initialState_def)
  show ?thesis
    using m t setSession_schedules [OF decodeClaims_sample100, of 100 0 initialState]
    by (simp add: decodeClaims_sample100)
qed

subsection \<open>Login with a token that fails the check\<close>

lemma sendRequest_frame:
  "user (sendRequest c s) = user s"
  "sessionExpiry (sendRequest c s) = sessionExpiry s"
  "securityLog (sendRequest c s) = securityLog s"
  "storage (sendRequest c s) = storage s"
  "timers (sendRequest c s) = timers s"
  "pendingLogs (sendRequest c s) = pendingLogs s"
  "apiCalls (sendRequest c s) = apiCalls s @ [c]"
  "redirected (sendRequest c s) = redirected s"
  by (simp_all add: sendRequest_def)

lemma login_catch_frame:
  "user (snd (login_catch e email s)) = user s"
  "sessionExpiry (snd (login_catch e email s)) = sessionExpiry s"
  "securityLog (snd (login_catch e email s)) = securityLog s"
  "storage (snd (login_catch e email s)) = storage s"
  "timers (snd (login_catch e email s)) = timers s"
  "apiCalls (snd (login_catch e email s)) = apiCalls s"
  "redirected (snd (login_catch e email s)) = redirected s"
  by (simp_all add: login_catch_def Let_def)

text \<open>
  The guard of line 190. When \<^verbatim>\<open>login\<close> is not throttled and the token of the response
  fails \<^verbatim>\<open>isValidToken\<close>, the \<^verbatim>\<open>try\<close> block throws \<^verbatim>\<open>Invalid token received\<close> and the
  call returns the failure object with the message \<^verbatim>\<open>Login failed\<close>; the stored
  \<^verbatim>\<open>token\<close> and \<^verbatim>\<open>refreshToken\<close>, the user, the session expiry and the timers are as
  before the call, so a state with no user signed in stays so. The request is the one
  effect besides the log. A token is rejected here only as far as \<^verbatim>\<open>isValidToken\<close>
  rejects it.
\<close>

lemma login_invalid_token:
  assumes "length (recentAttempts P t0 s) < 5"
    and "destructureLogin data = Inr (token, refreshToken, userData)"
    and "\<not> isValidToken P t1 token"
  shows "(let out = login P t0 t1 (Resolved data) email password s; s' = snd out
          in fst (login_try P t0 t1 (Resolved data) email password s) = Inl InvalidTokenReceived \<and>
             fst out = JObj [(''success'', JBool False), (''message'', JStr ''Login failed'')] \<and>
             storage s' ''token'' = storage s ''token'' \<and>
             storage s' ''refreshToken'' = storage s ''refreshToken'' \<and>
             user s' = user s \<and> sessionExpiry s' = sessionExpiry s \<and> timers s' = timers s \<and>
             apiCalls s' = apiCalls s @ [LoginCall email password])"
proof -
  let ?s2 = "sendRequest (LoginCall email password)
               (addSecurityLog P t0 ''login_attempt'' [(''email'', JStr email)] s)"
  from assms have thrown:
    "login_try P t0 t1 (Resolved data) email password s = (Inl InvalidTokenReceived, ?s2)"
    by (simp add: login_try_def Let_def)
  then have out: "login P t0 t1 (Resolved data) email password s =
      login_catch InvalidTokenReceived email ?s2"
    by (simp add: login_def)
  have msg: "fst (login_catch InvalidTokenReceived email ?s2) =
      JObj [(''success'', JBool False), (''message'', JStr ''Login failed'')]"
    by (simp add: login_catch_def or_else_def Let_def)
  show ?thesis
    unfolding Let_def out thrown
    by (intro conjI msg)
      (simp_all add: login_catch_frame sendRequest_frame addSecurityLog_frame storage_addSecurityLog)
qed

lemma login_invalid_token_example:
  "length (recentAttempts samplePlatform 150000 initialState) < 5 \<and>
   destructureLogin expiredTokenData =
     Inr (JStr ''h.eyJleHAiOjEwMH0=.s'', JUndefined, JObj [(''id'', JStr ''u1'')]) \<and>
   \<not> isValidToken samplePlatform 200000 (JStr ''h.eyJleHAiOjEwMH0=.s'') \<and>
   fst (login samplePlatform 150000 200000 (Resolved expiredTokenData) ''a@b.c'' ''pw'' initialState) =
     JObj [(''success'', JBool False), (''message'', JStr ''Login failed'')] \<and>
   storage (snd (login samplePlatform 150000 200000 (Resolved expiredTokenData) ''a@b.c'' ''pw''
                   initialState)) ''token'' = None \<and>
   user (snd (login samplePlatform 150000 200000 (Resolved expiredTokenData) ''a@b.c'' ''pw''
                initialState)) = JNull"
proof -
  have 1: "length (recentAttempts samplePlatform 150000 initialState) < 5"
    by (simp add: recentAttempts_def initialState_def)
  have 2: "destructureLogin expiredTokenData =
     Inr (JStr ''h.eyJleHAiOjEwMH0=.s'', JUndefined, JObj [(''id'', JStr ''u1'')])"
    by (simp add: expiredTokenData_def own_prop_def)
  have 3: "\<not> isValidToken samplePlatform 200000 (JStr ''h.eyJleHAiOjEwMH0=.s'')"
    by (simp add: isValidToken_decode decodeClaims_sample100 own_prop_def)
  have 4: "storage initialState ''token'' = None" "user initialState = JNull"
    by (simp_all add: initialState_def)
  note t = login_invalid_token [OF 1 2 3, of "''a@b.c''" "''pw''", unfolded Let_def]
  show ?thesis
    using 1 2 3 4 t by simp
qed

subsection \<open>Pending auto-logout callbacks\<close>

lemma setItem_frame:
  "user (setItem k v s) = user s"
  "sessionExpiry (setItem k v s) = sessionExpiry s"
  "securityLog (setItem k v s) = securityLog s"
  "timers (setItem k v s) = timers s"
  "pendingLogs (setItem k v s) = pendingLogs s"
  "apiCalls (setItem k v s) = apiCalls s"
  "redirected (setItem k v s) = redirected s"
  "storage (setItem k v s) = (storage s)(k \<mapsto> v)"
  by (simp_all add: setItem_def)


lemma setSession_frame:
  "user (setSession P now token s) = user s"
  "securityLog (setSession P now token s) = securityLog s"
  "storage (setSession P now token s) = storage s"
  "pendingLogs (setSession P now token s) = pendingLogs s"
  "apiCalls (setSession P now token s) = apiCalls s"
  "redirected (setSession P now token s) = redirected s"
  by (simp_all add: setSession_def Let_def
      split: jsval.split option.split sum.split jsnum.split)











lemma fireTimer_Some:
  assumes "fireTimer P now i s = Some s'"
  shows "user s' = JNull" "sessionExpiry s' = None"
    "storage s' ''token'' = None" "storage s' ''refreshToken'' = None"
    "timers s' = take i (timers s) @ drop (Suc i) (timers s)"
  using assms
  by (auto simp: fireTimer_def Let_def logout_as_frame storage_logout_as_tokens addSecurityLog_frame
      split: if_splits)

lemma fireTimer_due:
  "i < length (timers s) \<Longrightarrow> timer_due now (timers s ! i) \<Longrightarrow> fireTimer P now i s \<noteq> None"
  by (simp add: fireTimer_def Let_def)

lemma login_valid_token:
  assumes "length (recentAttempts P t0 s) < 5"
    and "isValidToken P t1 (own_prop kvs ''token'')"
    and "\<not> truthy (own_prop kvs ''refreshToken'')"
  shows "snd (login P t0 t1 (Resolved (JObj kvs)) email password s) =
     (setSession P t1 (own_prop kvs ''token'')
        ((setItem ''token'' (ToString P (own_prop kvs ''token''))
            (sendRequest (LoginCall email password)
               (addSecurityLog P t0 ''login_attempt'' [(''email'', JStr email)] s)))
         \<lparr>user := JObj (filter (\<lambda>(k, v). k \<noteq> ''token'' \<and> k \<noteq> ''refreshToken'') kvs)\<rparr>))
     \<lparr>pendingLogs :=
        pendingLogs s @
        [PendingLog ''login_success''
           [(''userId'',
             opt_member (JObj (filter (\<lambda>(k, v). k \<noteq> ''token'' \<and> k \<noteq> ''refreshToken'') kvs)) ''id''),
            (''email'', JStr email)]
           [(''method'', JStr ''password'')]]\<rparr>"
  using assms
  by (simp add: login_def login_try_def Let_def setSession_frame setItem_frame sendRequest_frame
      addSecurityLog_frame)






subsection \<open>Security events of the current user\<close>

lemma str_includes_sublist: "str_includes s t = sublist t s"
  by (induction s) (auto simp: sublist_Cons_right)

lemma member_of_truthy: "truthy u \<Longrightarrow> member_of u k = Inr (opt_member u k)"
  by (cases u) (simp_all add: opt_member_def)

lemma eventVisible_stringAction:
  "truthy u \<Longrightarrow> \<not> is_reference (opt_member u ''id'') \<Longrightarrow> stringAction entry \<Longrightarrow>
   eventVisible u entry = Some (Inr (visibleTo u entry))"
  by (auto simp: eventVisible_def member_of_truthy strict_eq_primitive visibleTo_def
      actionIncludes_def stringAction_def split: jsval.splits bool.splits)

lemma filterEvents_stringAction:
  "truthy u \<Longrightarrow> \<not> is_reference (opt_member u ''id'') \<Longrightarrow> list_all stringAction log \<Longrightarrow>
   filterEvents u log = Some (Inr (filter (visibleTo u) log))"
  by (induction log) (simp_all add: eventVisible_stringAction)

lemma map_of_spread:
  "k \<notin> fst ` set details \<Longrightarrow> map_of (spread base details) k = map_of base k"
  unfolding spread_def
  by (induction details arbitrary: base) (auto simp: update_conv')

lemma stringAction_logEntry:
  "''action'' \<notin> fst ` set details \<Longrightarrow> stringAction (logEntry P now action details)"
  by (simp add: stringAction_def own_prop_def logEntry_def map_of_spread)

lemma stringAction_addSecurityLog:
  "''action'' \<notin> fst ` set details \<Longrightarrow> list_all stringAction (securityLog s) \<Longrightarrow>
   list_all stringAction (securityLog (addSecurityLog P now action details s))"
  by (auto simp: securityLog_addSecurityLog stringAction_logEntry list_all_iff dest: in_set_takeD)

lemma logEntry_userId:
  "logEntry P now a [(''userId'', v)] =
     [(''timestamp'', JStr (toISOString P now)), (''action'', JStr a),
      (''userAgent'', JStr (userAgent P)), (''ip'', JStr ''unknown''),
      (''location'', JStr ''unknown''), (''userId'', v)]"
  by (simp add: logEntry_def spread_def own_prop_def or_else_def)

lemma logEntry_no_details:
  "logEntry P now a [] =
     [(''timestamp'', JStr (toISOString P now)), (''action'', JStr a),
      (''userAgent'', JStr (userAgent P)), (''ip'', JStr ''unknown''),
      (''location'', JStr ''unknown'')]"
  by (simp add: logEntry_def spread_def own_prop_def or_else_def)

text \<open>
  Claim C9 as the specification states it, that logout and token entries are returned
  even before a user is known, fails.
  After a logout no user is known, the log holds a \<^verbatim>\<open>user_logout\<close> entry, and
  \<^verbatim>\<open>getSecurityEvents\<close> returns no entry.
\<close>

theorem no_events_without_user:
  "\<not> truthy (user loggedOut) \<and>
   securityLog loggedOut = [logEntry samplePlatform 1000 ''user_logout'' [(''userId'', JUndefined)]] \<and>
   js_includes (own_prop (logEntry samplePlatform 1000 ''user_logout'' [(''userId'', JUndefined)])
                  ''action'') ''logout'' = Inr True \<and>
   getSecurityEvents loggedOut = Some (Inr [])"
proof -
  have u: "user loggedOut = JNull"
    by (simp add: loggedOut_def logout_def logout_as_frame)
  have l: "securityLog loggedOut =
      [logEntry samplePlatform 1000 ''user_logout'' [(''userId'', JUndefined)]]"
    by (simp add: loggedOut_def logout_def securityLog_logout_as initialState_def opt_member_def)
  have a: "js_includes (own_prop (logEntry samplePlatform 1000 ''user_logout'' [(''userId'', JUndefined)])
                  ''action'') ''logout'' = Inr True"
    by (simp add: logEntry_userId own_prop_def)
  show ?thesis
    using l a by (simp add: u getSecurityEvents_def)
qed

text \<open>
  Claim C9, as the code has it. With no user signed in \<^verbatim>\<open>getSecurityEvents\<close> returns
  the empty list. With a user signed in whose \<^verbatim>\<open>id\<close> is a primitive value (a string, a
  number, a boolean, \<^verbatim>\<open>null\<close> or absent: not an object or an array) and a log whose
  entries have string actions, it returns exactly the entries whose \<^verbatim>\<open>userId\<close> is that
  \<^verbatim>\<open>id\<close> and those whose action contains \<^verbatim>\<open>logout\<close> or \<^verbatim>\<open>token\<close>, whoever owns
  them, in the order of the log.
\<close>

theorem getSecurityEvents_filter:
  "(\<not> truthy (user s) \<longrightarrow> getSecurityEvents s = Some (Inr [])) \<and>
   (truthy (user s) \<and> \<not> is_reference (opt_member (user s) ''id'') \<and>
    list_all stringAction (securityLog s) \<longrightarrow>
      getSecurityEvents s = Some (Inr (filter (visibleTo (user s)) (securityLog s))))"
  by (simp add: getSecurityEvents_def filterEvents_stringAction)

lemma securityLog_signedIn:
  "securityLog signedIn =
     [logEntry samplePlatform 3000 ''login_success'' [(''userId'', JStr ''u2'')],
      logEntry samplePlatform 2000 ''token_refreshed'' [],
      logEntry samplePlatform 1000 ''login_attempt'' [(''email'', JStr ''a@b.c'')],
      logEntry samplePlatform 0 ''login_success'' [(''userId'', JStr ''u1'')]]"
  by (simp add: signedIn_def appendAll_def securityLog_addSecurityLog initialState_def)

theorem getSecurityEvents_filter_witness:
  "truthy (user signedIn) \<and> \<not> is_reference (opt_member (user signedIn) ''id'') \<and>
   list_all stringAction (securityLog signedIn) \<and>
   getSecurityEvents signedIn =
     Some (Inr [logEntry samplePlatform 2000 ''token_refreshed'' [],
                logEntry samplePlatform 0 ''login_success'' [(''userId'', JStr ''u1'')]]) \<and>
   \<not> truthy (user loggedOut) \<and> getSecurityEvents loggedOut = Some (Inr [])"
proof -
  have u: "user signedIn = JObj [(''id'', JStr ''u1'')]"
    by (simp add: signedIn_def)
  have t: "truthy (user signedIn)"
    by (simp add: u)
  have a: "list_all stringAction (securityLog signedIn)"
    by (simp add: securityLog_signedIn stringAction_logEntry)
  have f: "filter (visibleTo (user signedIn)) (securityLog signedIn) =
      [logEntry samplePlatform 2000 ''token_refreshed'' [],
       logEntry samplePlatform 0 ''login_success'' [(''userId'', JStr ''u1'')]]"
    unfolding u securityLog_signedIn
    by (simp add: visibleTo_def actionIncludes_def opt_member_def own_prop_def
        logEntry_userId logEntry_no_details logEntry_email)
  have p: "\<not> is_reference (opt_member (user signedIn) ''id'')"
    by (simp add: u opt_member_def own_prop_def)
  have n: "\<not> truthy (user loggedOut)"
    by (simp add: loggedOut_def logout_def logout_as_frame)
  show ?thesis
    using t p a f n getSecurityEvents_filter [of signedIn] getSecurityEvents_filter [of loggedOut]
    by simp
qed

subsection \<open>The zero expiry in login and refresh\<close>

lemma login_valid_token_result:
  assumes "length (recentAttempts P t0 s) < 5"
    and "isValidToken P t1 (own_prop kvs ''token'')"
  shows "fst (login P t0 t1 (Resolved (JObj kvs)) email password s) = JObj [(''success'', JBool True)]"
  using assms by (simp add: login_def login_try_def Let_def)

lemma refresh_valid_token:
  assumes "truthy (getItem s ''refreshToken'')"
    and "isValidToken P t0 (getItem s ''refreshToken'')"
    and "isValidToken P t1 (own_prop kvs ''token'')"
    and "\<not> truthy (own_prop kvs ''newRefreshToken'')"
  shows "refreshAuthToken P t0 t1 (Resolved (JObj kvs)) s =
     (JObj [(''success'', JBool True), (''token'', own_prop kvs ''token'')],
      addSecurityLog P t1 ''token_refreshed'' []
        (setSession P t1 (own_prop kvs ''token'')
           (setItem ''token'' (ToString P (own_prop kvs ''token''))
              (sendRequest (RefreshCall (getItem s ''refreshToken'')) s))))"
  using assms by (simp add: refreshAuthToken_def refresh_try_def Let_def)

text \<open>
  Claim C5. The token \<^verbatim>\<open>h.eyJleHAiOjB9.s\<close> has the claims \<^verbatim>\<open>{"exp":0}\<close>: one second after
  the epoch it has expired. A login that is answered with it then does not fail:
  \<^verbatim>\<open>isValidToken\<close> accepts the expiry 0 (claim C2), so \<^verbatim>\<open>login\<close> returns success,
  stores the token and signs the user in.
\<close>

theorem login_stores_expired_token:
  "decodeClaims samplePlatform ''h.eyJleHAiOjB9.s'' = Some (JObj [(''exp'', JNum 0)]) \<and>
   (0::int) * 1000 \<le> int 1000 \<and>
   fst (login samplePlatform 1000 1000 (Resolved zeroExpiryData) ''a@b.c'' ''pw'' initialState) =
     JObj [(''success'', JBool True)] \<and>
   storage (snd (login samplePlatform 1000 1000 (Resolved zeroExpiryData) ''a@b.c'' ''pw'' initialState))
     ''token'' = Some ''h.eyJleHAiOjB9.s'' \<and>
   user (snd (login samplePlatform 1000 1000 (Resolved zeroExpiryData) ''a@b.c'' ''pw'' initialState)) =
     JObj [(''id'', JStr ''u1'')]"
proof -
  let ?kvs = "[(''token'', JStr ''h.eyJleHAiOjB9.s''), (''id'', JStr ''u1'')]"
  have 1: "length (recentAttempts samplePlatform 1000 initialState) < 5"
    by (simp add: recentAttempts_def initialState_def)
  have 2: "isValidToken samplePlatform 1000 (own_prop ?kvs ''token'')"
    by (simp add: own_prop_def isValidToken_decode decodeClaims_sample0)
  have 3: "\<not> truthy (own_prop ?kvs ''refreshToken'')"
    by (simp add: own_prop_def)
  note st = login_valid_token [OF 1 2 3, of "''a@b.c''" "''pw''"]
  have r: "fst (login samplePlatform 1000 1000 (Resolved zeroExpiryData) ''a@b.c'' ''pw'' initialState) =
      JObj [(''success'', JBool True)]"
    unfolding zeroExpiryData_def by (rule login_valid_token_result [OF 1 2])
  have k: "storage (snd (login samplePlatform 1000 1000 (Resolved zeroExpiryData) ''a@b.c'' ''pw''
                          initialState)) ''token'' = Some ''h.eyJleHAiOjB9.s''"
    unfolding zeroExpiryData_def st
    by (simp add: setSession_frame setItem_frame ToString_def own_prop_def)
  have u: "user (snd (login samplePlatform 1000 1000 (Resolved zeroExpiryData) ''a@b.c'' ''pw''
                       initialState)) = JObj [(''id'', JStr ''u1'')]"
    unfolding zeroExpiryData_def st by (simp add: setSession_frame)
  show ?thesis
    using r k u by (simp add: decodeClaims_sample0)
qed

text \<open>
  Claim C7. A browser holds the refresh token \<^verbatim>\<open>h.eyJleHAiOjB9.s\<close>, with the claims
  \<^verbatim>\<open>{"exp":0}\<close>: one second after the epoch it has expired. \<^verbatim>\<open>refreshAuthToken\<close> then
  does not fail: \<^verbatim>\<open>isValidToken\<close> accepts the expiry 0 (claim C2), so the request is
  sent with the expired token, and the bearer token of the answer is stored.
\<close>

theorem refresh_sends_expired_token:
  "getItem staleRefreshState ''refreshToken'' = JStr ''h.eyJleHAiOjB9.s'' \<and>
   decodeClaims samplePlatform ''h.eyJleHAiOjB9.s'' = Some (JObj [(''exp'', JNum 0)]) \<and>
   (0::int) * 1000 \<le> int 1000 \<and>
   fst (refreshAuthToken samplePlatform 1000 2000 (Resolved freshTokenData) staleRefreshState) =
     JObj [(''success'', JBool True), (''token'', JStr ''h.eyJleHAiOjEwMH0=.s'')] \<and>
   apiCalls (snd (refreshAuthToken samplePlatform 1000 2000 (Resolved freshTokenData) staleRefreshState)) =
     [RefreshCall (JStr ''h.eyJleHAiOjB9.s'')] \<and>
   storage (snd (refreshAuthToken samplePlatform 1000 2000 (Resolved freshTokenData) staleRefreshState))
     ''token'' = Some ''h.eyJleHAiOjEwMH0=.s'' \<and>
   storage (snd (refreshAuthToken samplePlatform 1000 2000 (Resolved freshTokenData) staleRefreshState))
     ''refreshToken'' = Some ''h.eyJleHAiOjB9.s''"
proof -
  let ?kvs = "[(''token'', JStr ''h.eyJleHAiOjEwMH0=.s'')]"
  have g: "getItem staleRefreshState ''refreshToken'' = JStr ''h.eyJleHAiOjB9.s''"
    by (simp add: staleRefreshState_def getItem_def setItem_frame)
  have 1: "truthy (getItem staleRefreshState ''refreshToken'')"
    by (simp add: g)
  have 2: "isValidToken samplePlatform 1000 (getItem staleRefreshState ''refreshToken'')"
    by (simp add: g isValidToken_decode decodeClaims_sample0 own_prop_def)
  have 3: "isValidToken samplePlatform 2000 (own_prop ?kvs ''token'')"
    by (simp add: own_prop_def isValidToken_decode decodeClaims_sample100)
  have 4: "\<not> truthy (own_prop ?kvs ''newRefreshToken'')"
    by (simp add: own_prop_def)
  note st = refresh_valid_token [OF 1 2 3 4]
  have a: "apiCalls staleRefreshState = []" "storage staleRefreshState ''refreshToken'' =
      Some ''h.eyJleHAiOjB9.s''"
    by (simp_all add: staleRefreshState_def setItem_frame initialState_def)
  show ?thesis
    unfolding freshTokenData_def st
    using a
    by (simp add: g decodeClaims_sample0 own_prop_def addSecurityLog_frame storage_addSecurityLog
        setSession_frame setItem_frame sendRequest_frame ToString_def)
qed

subsection \<open>A delay beyond 32 bits\<close>

lemma timeoutDelay_small: "0 \<le> d \<Longrightarrow> d \<le> 2147483647 \<Longrightarrow> timeoutDelay d = d"
  by (simp add: timeoutDelay_def)

lemma timeoutDelay_large: "2147483648 \<le> d \<Longrightarrow> d \<le> 4294967295 \<Longrightarrow> timeoutDelay d = 0"
proof -
  assume a: "2147483648 \<le> d" and b: "d \<le> 4294967295"
  have "(d + 2 ^ 31) mod 2 ^ 32 = d + 2 ^ 31 - 2 ^ 32"
    using a b by (simp add: mod_pos_geq)
  then show ?thesis
    using b by (simp add: timeoutDelay_def)
qed

lemma timer_due_small:
  "0 \<le> d \<Longrightarrow> d \<le> 2147483647 \<Longrightarrow>
   timer_due t \<lparr>set_at = now, delay = d\<rparr> = (int now + d \<le> int t)"
  by (simp add: timer_due_def timeoutDelay_small)

lemma setSession_delay_overflow:
  assumes "decodeClaims P str = Some payload"
    and "member_of payload ''exp'' = Inr (JNum e)"
    and "2147483648 \<le> e * 1000 - int now - 60000"
    and "e * 1000 - int now - 60000 \<le> 4294967295"
  shows "timers (setSession P now (JStr str) s) =
           timers s @ [\<lparr>set_at = now, delay = e * 1000 - int now - 60000\<rparr>]"
    and "timer_due now \<lparr>set_at = now, delay = e * 1000 - int now - 60000\<rparr>"
proof -
  from assms(3) have "e * 1000 - int now - 60000 > 0"
    by simp
  with assms(2) show "timers (setSession P now (JStr str) s) =
      timers s @ [\<lparr>set_at = now, delay = e * 1000 - int now - 60000\<rparr>]"
    using setSession_schedules [OF assms(1), of e now s] by blast
  show "timer_due now \<lparr>set_at = now, delay = e * 1000 - int now - 60000\<rparr>"
    by (simp add: timer_due_def timeoutDelay_large [OF assms(3) assms(4)])
qed

lemma split_on_sample30d:
  "split_on CHR ''.'' ''h.eyJleHAiOjI1OTIwMDB9.s'' = [''h'', ''eyJleHAiOjI1OTIwMDB9'', ''s'']"
  by simp

lemma decodeClaims_sample30d:
  "decodeClaims samplePlatform ''h.eyJleHAiOjI1OTIwMDB9.s'' = Some (JObj [(''exp'', JNum 2592000)])"
  by (simp add: decodeClaims_def split_on_sample30d samplePlatform_def sampleAtob_def sampleParse_def
      del: split_on.simps)

lemma longLogin_fields:
  "timers longLogin = [\<lparr>set_at = 0, delay = 2591940000\<rparr>]"
  "user longLogin = JObj [(''id'', JStr ''u1'')]"
  "storage longLogin ''token'' = Some ''h.eyJleHAiOjI1OTIwMDB9.s''"
proof -
  let ?kvs = "[(''token'', JStr ''h.eyJleHAiOjI1OTIwMDB9.s''), (''id'', JStr ''u1'')]"
  have 1: "length (recentAttempts samplePlatform 0 initialState) < 5"
    by (simp add: recentAttempts_def initialState_def)
  have 2: "isValidToken samplePlatform 0 (own_prop ?kvs ''token'')"
    by (simp add: own_prop_def isValidToken_decode decodeClaims_sample30d)
  have 3: "\<not> truthy (own_prop ?kvs ''refreshToken'')"
    by (simp add: own_prop_def)
  note st = login_valid_token [OF 1 2 3, of "''a@b.c''" "''pw''", folded longLogin_def]
  have tok: "own_prop ?kvs ''token'' = JStr ''h.eyJleHAiOjI1OTIwMDB9.s''"
    by (simp add: own_prop_def)
  show "timers longLogin = [\<lparr>set_at = 0, delay = 2591940000\<rparr>]"
    unfolding st tok
    by (simp add: setSession_decode [OF decodeClaims_sample30d] own_prop_def setItem_frame
        sendRequest_frame addSecurityLog_frame initialState_def)
  show "user longLogin = JObj [(''id'', JStr ''u1'')]"
    unfolding st by (simp add: setSession_frame)
  show "storage longLogin ''token'' = Some ''h.eyJleHAiOjI1OTIwMDB9.s''"
    unfolding st tok by (simp add: setSession_frame setItem_frame ToString_def)
qed

text \<open>
  Claim C8. For a delay up to 2147483647 milliseconds the callback that \<^verbatim>\<open>setSession\<close>
  arranges is due exactly that delay after the call (\<open>setSession_schedules\<close>,
  \<open>timer_due_small\<close>), runs once and logs the user out (\<open>fireTimer_Some\<close>). A delay from
  2147483648 to 4294967295 milliseconds is due at once (\<open>setSession_delay_overflow\<close>).
  A token that is valid for 30 days asks for a delay of 2591940000 milliseconds, which
  the browser keeps in 32 bits and waits 0 milliseconds for: five milliseconds after
  the login the callback is due, and it logs out the user whose token has 30 days to
  run.
\<close>

theorem auto_logout_runs_at_once:
  "decodeClaims samplePlatform ''h.eyJleHAiOjI1OTIwMDB9.s'' = Some (JObj [(''exp'', JNum 2592000)]) \<and>
   (2592000::int) * 1000 - int 0 - 60000 = 2591940000 \<and>
   timers longLogin = [\<lparr>set_at = 0, delay = 2591940000\<rparr>] \<and>
   timeoutDelay 2591940000 = 0 \<and>
   timer_due 5 (timers longLogin ! 0) \<and>
   truthy (user longLogin) \<and>
   isValidToken samplePlatform 5 (getItem longLogin ''token'') \<and>
   fireTimer samplePlatform 5 0 longLogin \<noteq> None \<and>
   user (the (fireTimer samplePlatform 5 0 longLogin)) = JNull \<and>
   storage (the (fireTimer samplePlatform 5 0 longLogin)) ''token'' = None"
proof -
  have d: "timeoutDelay 2591940000 = 0"
    by (rule timeoutDelay_large) simp_all
  have due: "timer_due 5 (timers longLogin ! 0)"
    by (simp add: longLogin_fields timer_due_def d)
  have ne: "fireTimer samplePlatform 5 0 longLogin \<noteq> None"
    by (rule fireTimer_due [OF _ due]) (simp add: longLogin_fields)
  then obtain s' where s': "fireTimer samplePlatform 5 0 longLogin = Some s'"
    by blast
  have valid: "isValidToken samplePlatform 5 (getItem longLogin ''token'')"
    by (simp add: getItem_def longLogin_fields isValidToken_decode decodeClaims_sample30d own_prop_def)
  show ?thesis
    using d due ne valid fireTimer_Some [OF s']
    by (simp add: longLogin_fields s' decodeClaims_sample30d)
qed

end
